theory Spec2Isabelle
  imports Main "HOL-Library.Word"
begin

section \<open>The skybox system of the engine (systems/skybox\_system.c)\<close>

text \<open>
  The subsystem keeps one \<open>skybox_state\<close> behind the file-static pointer \<open>state_ptr\<close>
  and talks to the rest of the engine (resource system, renderer front end, shader
  system, geometry system, memory) through calls whose code is elsewhere.  The model
  \<^item> passes \<open>state_ptr\<close> explicitly, as a \<open>skybox_state option\<close> (\<open>None\<close> is the
    null pointer);
  \<^item> takes what each collaborator answers during one call as a record of that call
    (\<open>init_env\<close>, \<open>unload_env\<close>, \<open>load_env\<close>, \<open>render_env\<close>), so every answer,
    also a failing one, is an input;
  \<^item> returns, next to the new \<open>state_ptr\<close>, the list of collaborator calls the
    function made, in order (\<open>event list\<close>).
  Log calls are left out, and so are the matrices handed through to the uniforms and
  the bytes of the pixel buffers: the functions copy them, they never look at them.
  \<open>skybox_system_get_available\<close> and \<open>skybox_system_free_available_list\<close> only read
  the base path of the state and are left out too.
\<close>

subsection \<open>Machine types, C strings and constants\<close>

type_synonym u8 = "8 word"
type_synonym u32 = "32 word"
type_synonym u64 = "64 word"

definition NUL :: char where
  "NUL = CHR 0x00"

text \<open>A \<open>const char*\<close> argument: the characters before the terminating NUL.\<close>

definition is_c_string :: "string \<Rightarrow> bool" where
  "is_c_string s = (NUL \<notin> set s)"

text \<open>\<open>kzero_memory\<close> on a \<open>char[n]\<close> array.\<close>

definition zero_buf :: "nat \<Rightarrow> char list" where
  "zero_buf n = replicate n NUL"

text \<open>
  Modelled from the spec: \<open>string_ncopy\<close> of core/kstring is not under src/.  The spec
  calls the name a bounded string; the model is the bounded copy of the C library
  (\<open>strncpy\<close>): the first \<open>n\<close> characters of the source, the rest of the \<open>n\<close> bytes
  filled with NUL, and no terminator when the source has \<open>n\<close> characters or more.
  The result is the new content of a destination array of \<open>n\<close> bytes.
\<close>

definition string_ncopy :: "string \<Rightarrow> nat \<Rightarrow> char list" where
  "string_ncopy src n = take n src @ replicate (n - length src) NUL"

text \<open>
  The characters before the first NUL in a run of bytes (all of them when there is no
  NUL among them).
\<close>

definition c_str :: "char list \<Rightarrow> string" where
  "c_str buf = takeWhile (\<lambda>c. c \<noteq> NUL) buf"

text \<open>
  What a C string read finds in memory of which the model has only the first bytes:
  \<open>Terminated s\<close> when it met a NUL after the characters \<open>s\<close>; \<open>Overrun s\<close> when it read
  the characters \<open>s\<close>, none of them NUL, and went on into bytes the model does not have.
\<close>

datatype c_read = Terminated string | Overrun string

definition c_read_of :: "char list \<Rightarrow> c_read" where
  "c_read_of known = (if NUL \<in> set known then Terminated (c_str known) else Overrun known)"

text \<open>
  Modelled from the spec: defines.h is not under src/.  \<open>b8\<close> is the boolean of one
  byte, \<open>true\<close> stored as the byte 1 and \<open>false\<close> as the byte 0.
\<close>

definition b8_byte :: "bool \<Rightarrow> char" where
  "b8_byte b = (if b then CHR 0x01 else NUL)"

text \<open>skybox\_system.h, line 15.\<close>

definition SKYBOX_NAME_MAX_LENGTH :: nat where
  "SKYBOX_NAME_MAX_LENGTH = 64"

text \<open>
  Modelled from the spec: defines.h is not under src/.  \<open>INVALID_ID\<close> is the invalid
  sentinel of the \<open>u32\<close> handles, the largest \<open>u32\<close>, as the source's own sentinel for
  the \<open>u64\<close> frame number is the largest \<open>u64\<close> (\<open>(u64)-1\<close>, line 203).
\<close>

definition INVALID_ID :: u32 where
  "INVALID_ID = 0xFFFFFFFF"

text \<open>
  Modelled from the spec: resources/resource\_types.h is not under src/.  The length of
  a texture's name array; no statement below depends on its value.
\<close>

definition TEXTURE_NAME_MAX_LENGTH :: nat where
  "TEXTURE_NAME_MAX_LENGTH = 512"

text \<open>Lines 19 to 27: the faces in the order +X, -X, +Y, -Y, +Z, -Z.\<close>

definition face_names :: "string list" where
  "face_names = [''right'', ''left'', ''top'', ''bottom'', ''front'', ''back'']"

subsection \<open>Data\<close>

text \<open>
  The structures of resource\_types.h are not under src/ either; each record has the
  fields this file reads or writes.  The enumerations have the value the file assigns
  and the all-zero value \<open>kzero_memory\<close> leaves.
\<close>

record image_resource_data =
  img_channel_count :: u8
  img_width :: u32
  img_height :: u32

record texture =
  tex_width :: u32
  tex_height :: u32
  tex_channel_count :: u8
  tex_generation :: u32
  tex_name :: "char list"

datatype texture_use = TEXTURE_USE_ZEROED | TEXTURE_USE_MAP_DIFFUSE
datatype texture_filter = TEXTURE_FILTER_ZEROED | TEXTURE_FILTER_MODE_LINEAR
datatype texture_repeat = TEXTURE_REPEAT_ZEROED | TEXTURE_REPEAT_CLAMP_TO_EDGE

record texture_map =
  map_texture :: bool  \<comment> \<open>the pointer: null, or the address of \<open>cubemap_texture\<close>\<close>
  map_use :: texture_use
  map_filter_minify :: texture_filter
  map_filter_magnify :: texture_filter
  map_repeat_u :: texture_repeat
  map_repeat_v :: texture_repeat
  map_repeat_w :: texture_repeat

text \<open>Pointers to objects of other systems: only their identity matters here.\<close>

datatype shader = Shader nat
datatype geometry = Geometry nat

text \<open>Lines 29 to 39.\<close>

record skybox_state =
  current_name :: "char list"
  is_loaded :: bool
  cubemap_texture :: texture
  cubemap_map :: texture_map
  cube_geometry :: "geometry option"
  shader_id :: u32
  shader_instance_id :: u32
  render_frame_number :: u64
  base_path :: "char list"

definition zero_texture :: texture where
  "zero_texture = \<lparr>tex_width = 0, tex_height = 0, tex_channel_count = 0, tex_generation = 0,
     tex_name = zero_buf TEXTURE_NAME_MAX_LENGTH\<rparr>"

definition zero_texture_map :: texture_map where
  "zero_texture_map = \<lparr>map_texture = False, map_use = TEXTURE_USE_ZEROED,
     map_filter_minify = TEXTURE_FILTER_ZEROED, map_filter_magnify = TEXTURE_FILTER_ZEROED,
     map_repeat_u = TEXTURE_REPEAT_ZEROED, map_repeat_v = TEXTURE_REPEAT_ZEROED,
     map_repeat_w = TEXTURE_REPEAT_ZEROED\<rparr>"

text \<open>\<open>kzero_memory(state_ptr, sizeof(skybox_state))\<close>, line 56.\<close>

definition zero_state :: skybox_state where
  "zero_state = \<lparr>current_name = zero_buf SKYBOX_NAME_MAX_LENGTH, is_loaded = False,
     cubemap_texture = zero_texture, cubemap_map = zero_texture_map, cube_geometry = None,
     shader_id = 0, shader_instance_id = 0, render_frame_number = 0,
     base_path = zero_buf 512\<rparr>"

subsection \<open>Calls to the collaborators\<close>

text \<open>
  \<open>face_pixels\<close> is the array of six buffer pointers: \<open>None\<close> is null, \<open>Some n\<close> a
  buffer that \<open>kallocate\<close> returned for \<open>n\<close> bytes.  The array has six entries
  everywhere it is used.
\<close>

type_synonym face_pixels = "u32 option list"

text \<open>
  One constructor for each function of another system this file calls.  A call that
  answers with success or failure carries the answer.  \<open>KAllocate i n\<close>,
  \<open>KCopy_Memory i n\<close> and \<open>KFree i n\<close> are about the pixel buffer of face \<open>i\<close>, with
  the size in bytes the call was given.  \<open>Cubemap_Create\<close> carries the six buffers and
  the width, height and channel count of the texture it is given.
\<close>

datatype event =
    Shader_System_Get_Id
  | Geometry_Acquire_From_Config "geometry option"
  | Geometry_Release geometry
  | Resource_Load string bool
  | Resource_Unload string
  | KAllocate nat u32
  | KCopy_Memory nat u32
  | KFree nat u32
  | Cubemap_Create face_pixels u32 u32 u8
  | Cubemap_Destroy
  | Texture_Map_Acquire bool
  | Texture_Map_Release
  | Shader_Get_By_Id u32
  | Shader_Acquire_Instance shader bool
  | Shader_Release_Instance shader u32
  | Shader_Use_By_Id u32 bool
  | Shader_Bind_Globals shader bool
  | Shader_Uniform_Set string bool
  | Shader_Apply_Global
  | Shader_Bind_Instance u32
  | Shader_Apply_Instance bool bool
  | Draw_Geometry geometry

text \<open>What the collaborators answer during one call of each entry point.\<close>

record init_env =
  ie_shader_id :: u32  \<comment> \<open>\<open>shader_system_get_id("Shader.Builtin.Skybox")\<close>\<close>
  ie_geometry :: "geometry option"  \<comment> \<open>\<open>geometry_system_acquire_from_config\<close>\<close>

record unload_env =
  ue_shader :: "shader option"  \<comment> \<open>\<open>shader_system_get_by_id\<close>, line 212\<close>

record load_env =
  le_unload :: unload_env  \<comment> \<open>for the \<open>skybox_system_unload\<close> of line 142\<close>
  le_resource :: "string \<Rightarrow> image_resource_data option"
    \<comment> \<open>\<open>resource_system_load\<close> of an image, by resource name; \<open>None\<close> is failure\<close>
  le_map_acquire :: bool  \<comment> \<open>\<open>renderer_texture_map_acquire_resources\<close>\<close>
  le_shader :: "shader option"  \<comment> \<open>\<open>shader_system_get_by_id\<close>, line 184\<close>
  le_instance_acquire :: bool  \<comment> \<open>\<open>renderer_shader_acquire_instance_resources\<close>\<close>
  le_instance_id :: "u32 option"
    \<comment> \<open>what that call stores through its out parameter; \<open>None\<close>: nothing\<close>

record render_env =
  re_use :: bool  \<comment> \<open>\<open>shader_system_use_by_id\<close>\<close>
  re_shader :: "shader option"  \<comment> \<open>\<open>shader_system_get_by_id\<close>, line 254\<close>
  re_bind_globals :: bool  \<comment> \<open>\<open>renderer_shader_bind_globals\<close>\<close>
  re_set_projection :: bool  \<comment> \<open>\<open>shader_system_uniform_set("projection", ...)\<close>\<close>
  re_set_view :: bool  \<comment> \<open>\<open>shader_system_uniform_set("view", ...)\<close>\<close>
  re_apply_instance :: bool  \<comment> \<open>\<open>shader_system_apply_instance\<close>\<close>

subsection \<open>The private functions\<close>

text \<open>Lines 349 to 357; the loop from index \<open>i\<close> on.\<close>

function free_face_pixels_from :: "nat \<Rightarrow> face_pixels \<Rightarrow> u32 \<Rightarrow> face_pixels \<times> event list" where
  "free_face_pixels_from i fp sz =
     (if i < 6 then
        (case fp ! i of
           None \<Rightarrow> free_face_pixels_from (i + 1) fp sz
         | Some b \<Rightarrow>
             (case free_face_pixels_from (i + 1) (fp[i := None]) sz of
                (fp', ev) \<Rightarrow> (fp', KFree i sz # ev)))
      else (fp, []))"
  by pat_completeness auto
termination
  by (relation "measure (\<lambda>(i, fp, sz). 6 - i)") auto

declare free_face_pixels_from.simps [simp del]

definition free_face_pixels :: "face_pixels \<Rightarrow> u32 \<Rightarrow> u32 \<Rightarrow> u8 \<Rightarrow> face_pixels \<times> event list" where
  "free_face_pixels fp w h c = free_face_pixels_from 0 fp (w * h * ucast c)"

text \<open>
  Lines 301 to 347; the loop from index \<open>i\<close> on, with the current content of the out
  parameters.  The result is the return value, the out parameters and the calls made.
  \<open>string_format\<close> writes the resource name into 512 bytes; names that do not fit are
  outside the model.
\<close>

definition resource_name :: "string \<Rightarrow> nat \<Rightarrow> string" where
  "resource_name skybox_name i = ''../skyboxes/'' @ skybox_name @ ''/'' @ face_names ! i"

function load_cubemap_faces_from ::
  "nat \<Rightarrow> (string \<Rightarrow> image_resource_data option) \<Rightarrow> string \<Rightarrow> face_pixels \<Rightarrow> u32 \<Rightarrow> u32 \<Rightarrow> u8
    \<Rightarrow> bool \<times> (face_pixels \<times> u32 \<times> u32 \<times> u8) \<times> event list" where
  "load_cubemap_faces_from i rl skybox_name fp w h c =
     (if i < 6 then
        (case rl (resource_name skybox_name i) of
           None \<Rightarrow>
             (if i > 0 then
                (case free_face_pixels fp w h c of
                   (fp', ev) \<Rightarrow>
                     (False, (fp', w, h, c), Resource_Load (resource_name skybox_name i) False # ev))
              else (False, (fp, w, h, c), [Resource_Load (resource_name skybox_name i) False]))
         | Some img \<Rightarrow>
             (if i \<noteq> 0 \<and> (img_width img \<noteq> w \<or> img_height img \<noteq> h) then
                (case free_face_pixels fp w h c of
                   (fp', ev) \<Rightarrow>
                     (False, (fp', w, h, c),
                      Resource_Load (resource_name skybox_name i) True
                        # Resource_Unload (resource_name skybox_name i) # ev))
              else
                (case load_cubemap_faces_from (i + 1) rl skybox_name
                        (fp[i := Some (img_width img * img_height img * ucast (img_channel_count img))])
                        (if i = 0 then img_width img else w)
                        (if i = 0 then img_height img else h)
                        (if i = 0 then img_channel_count img else c) of
                   (ok, out, ev) \<Rightarrow>
                     (ok, out,
                      Resource_Load (resource_name skybox_name i) True
                        # KAllocate i (img_width img * img_height img * ucast (img_channel_count img))
                        # KCopy_Memory i (img_width img * img_height img * ucast (img_channel_count img))
                        # Resource_Unload (resource_name skybox_name i) # ev))))
      else (True, (fp, w, h, c), []))"
  by pat_completeness auto
termination
  by (relation "measure (\<lambda>(i, rl, skybox_name, fp, w, h, c). 6 - i)") auto

declare load_cubemap_faces_from.simps [simp del]

text \<open>
  The call of line 150: \<open>face_pixels\<close> is all null; \<open>width\<close>, \<open>height\<close> and
  \<open>channels\<close> are uninitialised there and are not read before face 0 has set them
  (0 stands for their content).
\<close>

definition load_cubemap_faces ::
  "(string \<Rightarrow> image_resource_data option) \<Rightarrow> string
    \<Rightarrow> bool \<times> (face_pixels \<times> u32 \<times> u32 \<times> u8) \<times> event list" where
  "load_cubemap_faces rl skybox_name =
     load_cubemap_faces_from 0 rl skybox_name (replicate 6 None) 0 0 0"

subsection \<open>The public functions\<close>

text \<open>Lines 359 to 419; the vertex data is constant and left out.\<close>

definition create_skybox_cube :: "init_env \<Rightarrow> skybox_state \<Rightarrow> bool \<times> skybox_state \<times> event list" where
  "create_skybox_cube env st =
     (ie_geometry env \<noteq> None, st\<lparr>cube_geometry := ie_geometry env\<rparr>,
      [Geometry_Acquire_From_Config (ie_geometry env)])"

text \<open>
  Lines 48 to 79.  \<open>state\<close> says whether the caller passed memory for the state (a null
  \<open>state\<close> asks for the size only), \<open>config\<close> is \<open>skybox_base_path\<close> (\<open>None\<close>: null).
  The size stored through \<open>memory_requirement\<close> is left out.
\<close>

definition skybox_system_initialize ::
  "init_env \<Rightarrow> bool \<Rightarrow> string option \<Rightarrow> skybox_state option
    \<Rightarrow> bool \<times> skybox_state option \<times> event list" where
  "skybox_system_initialize env state config sp =
     (if \<not> state then (True, sp, [])
      else
        (let st = zero_state\<lparr>
               base_path := string_ncopy (case config of Some p \<Rightarrow> p | None \<Rightarrow> ''../assets/skyboxes'') 512,
               shader_id := ie_shader_id env\<rparr>
         in if shader_id st = INVALID_ID then (True, Some st, [Shader_System_Get_Id])
            else
              (case create_skybox_cube env st of
                 (ok, st', ev) \<Rightarrow>
                   if \<not> ok then (False, Some st', Shader_System_Get_Id # ev)
                   else (True, Some st', Shader_System_Get_Id # ev))))"

text \<open>
  Lines 209 to 229, for a \<open>state_ptr\<close> that is not null: \<open>unload_state\<close> works on the
  state it points to.  \<open>skybox_system_unload\<close> adds the null test of line 210.
\<close>

definition unload_state :: "unload_env \<Rightarrow> skybox_state \<Rightarrow> skybox_state \<times> event list" where
  "unload_state env st =
     (if is_loaded st then
        (case (case ue_shader env of
                 None \<Rightarrow> (st, [])
               | Some s \<Rightarrow>
                   if shader_instance_id st \<noteq> INVALID_ID
                   then (st\<lparr>shader_instance_id := INVALID_ID\<rparr>,
                         [Shader_Release_Instance s (shader_instance_id st)])
                   else (st, [])) of
           (st1, ev) \<Rightarrow>
             (st1\<lparr>cubemap_map := zero_texture_map, cubemap_texture := zero_texture,
                  current_name := (current_name st1)[0 := NUL], is_loaded := False\<rparr>,
              Shader_Get_By_Id (shader_id st) # ev @ [Texture_Map_Release, Cubemap_Destroy]))
      else (st, []))"

definition skybox_system_unload :: "unload_env \<Rightarrow> skybox_state option \<Rightarrow> skybox_state option \<times> event list" where
  "skybox_system_unload env sp =
     (case sp of
        None \<Rightarrow> (None, [])
      | Some st \<Rightarrow> (case unload_state env st of (st', ev) \<Rightarrow> (Some st', ev)))"

text \<open>Lines 81 to 92.\<close>

definition skybox_system_shutdown :: "unload_env \<Rightarrow> skybox_state option \<Rightarrow> skybox_state option \<times> event list" where
  "skybox_system_shutdown env sp =
     (case sp of
        None \<Rightarrow> (None, [])
      | Some st \<Rightarrow>
          (case unload_state env st of
             (st', ev) \<Rightarrow>
               (None, ev @ (case cube_geometry st' of None \<Rightarrow> [] | Some g \<Rightarrow> [Geometry_Release g]))))"

text \<open>
  The argument \<open>name\<close> of \<open>skybox_system_load\<close> is a pointer: to a string of the
  caller's own (\<open>Own s\<close>), or the pointer that \<open>skybox_system_get_current_name\<close> returned,
  which is the array \<open>current_name\<close> of the state itself (\<open>Current_Name\<close>) and shows
  whatever the array holds at the moment it is read.  \<open>name_text name st\<close> is the string
  read through the pointer while the state is \<open>st\<close>.  The function reads the name after
  line 143 only, where \<open>is_loaded\<close> is false: the byte after the array is 0 then, and
  the read of the array ends at that byte at the latest.
\<close>

datatype name_arg = Own string | Current_Name

definition name_text :: "name_arg \<Rightarrow> skybox_state \<Rightarrow> string" where
  "name_text name st = (case name of Own s \<Rightarrow> s | Current_Name \<Rightarrow> c_str (current_name st))"

text \<open>
  Lines 129 to 207.  The result is the return value, \<open>state_ptr\<close> and the calls made.
  With \<open>Current_Name\<close> line 201 copies the array onto itself; the model takes the copy
  of what the array reads as.
\<close>

definition skybox_system_load ::
  "load_env \<Rightarrow> name_arg \<Rightarrow> skybox_state option \<Rightarrow> bool \<times> skybox_state option \<times> event list" where
  "skybox_system_load env name sp =
     (case sp of
        None \<Rightarrow> (False, None, [])
      | Some st \<Rightarrow>
          if shader_id st = INVALID_ID then (False, Some st, [])
          else
            (case (if is_loaded st then unload_state (le_unload env) st else (st, [])) of
               (st1, ev1) \<Rightarrow>
                 (case load_cubemap_faces (le_resource env) (name_text name st1) of
                    (ok, (face_pixels, width, height, channels), ev2) \<Rightarrow>
                      if \<not> ok then (False, Some st1, ev1 @ ev2)
                      else
                        (case free_face_pixels face_pixels width height channels of
                           (face_pixels', ev3) \<Rightarrow>
                             (let st2 = st1\<lparr>
                                    cubemap_texture := (cubemap_texture st1)\<lparr>
                                      tex_width := width, tex_height := height,
                                      tex_channel_count := channels, tex_generation := INVALID_ID,
                                      tex_name := string_ncopy (name_text name st1) TEXTURE_NAME_MAX_LENGTH\<rparr>,
                                    cubemap_map := (cubemap_map st1)\<lparr>
                                      map_texture := True, map_use := TEXTURE_USE_MAP_DIFFUSE,
                                      map_filter_minify := TEXTURE_FILTER_MODE_LINEAR,
                                      map_filter_magnify := TEXTURE_FILTER_MODE_LINEAR,
                                      map_repeat_u := TEXTURE_REPEAT_CLAMP_TO_EDGE,
                                      map_repeat_v := TEXTURE_REPEAT_CLAMP_TO_EDGE,
                                      map_repeat_w := TEXTURE_REPEAT_CLAMP_TO_EDGE\<rparr>\<rparr>;
                                  ev = ev1 @ ev2 @ Cubemap_Create face_pixels width height channels # ev3
                              in if \<not> le_map_acquire env then
                                   (False, Some st2, ev @ [Texture_Map_Acquire False, Cubemap_Destroy])
                                 else
                                   (case le_shader env of
                                      None \<Rightarrow>
                                        (False, Some st2,
                                         ev @ [Texture_Map_Acquire True, Shader_Get_By_Id (shader_id st2),
                                               Texture_Map_Release, Cubemap_Destroy])
                                    | Some s \<Rightarrow>
                                        (let st3 = (case le_instance_id env of
                                                      None \<Rightarrow> st2
                                                    | Some v \<Rightarrow> st2\<lparr>shader_instance_id := v\<rparr>)
                                         in if \<not> le_instance_acquire env then
                                              (False, Some st3,
                                               ev @ [Texture_Map_Acquire True, Shader_Get_By_Id (shader_id st2),
                                                     Shader_Acquire_Instance s False,
                                                     Texture_Map_Release, Cubemap_Destroy])
                                            else
                                              (True,
                                               Some (st3\<lparr>
                                                 current_name := string_ncopy (name_text name st3) SKYBOX_NAME_MAX_LENGTH,
                                                 is_loaded := True, render_frame_number := - 1\<rparr>),
                                               ev @ [Texture_Map_Acquire True, Shader_Get_By_Id (shader_id st2),
                                                     Shader_Acquire_Instance s True]))))))))"

text \<open>
  Lines 231 to 237.  \<open>skybox_system_get_current_name\<close> returns a pointer; the model
  gives the string a caller reads through it: the empty string literal for the null
  state pointer, and otherwise the read of the state's memory from \<open>current_name\<close> on.
  Of that memory the model has the 64 bytes of the array and the byte of \<open>is_loaded\<close>,
  which comes right after it (lines 30 and 31); what follows is the texture, whose
  layout is declared outside src/.
\<close>

definition skybox_system_get_current_name :: "skybox_state option \<Rightarrow> c_read" where
  "skybox_system_get_current_name sp =
     (case sp of
        None \<Rightarrow> Terminated []
      | Some st \<Rightarrow> c_read_of (current_name st @ [b8_byte (is_loaded st)]))"

definition skybox_system_is_loaded :: "skybox_state option \<Rightarrow> bool" where
  "skybox_system_is_loaded sp = (case sp of None \<Rightarrow> False | Some st \<Rightarrow> is_loaded st)"

text \<open>
  Lines 239 to 297.  \<open>Shader_Apply_Instance d ok\<close> is
  \<open>shader_system_apply_instance(needs_update)\<close> with \<open>needs_update = d\<close> and answer \<open>ok\<close>.
\<close>

definition skybox_system_render :: "render_env \<Rightarrow> u64 \<Rightarrow> skybox_state option \<Rightarrow> skybox_state option \<times> event list" where
  "skybox_system_render env frame sp =
     (case sp of
        None \<Rightarrow> (None, [])
      | Some st \<Rightarrow>
          if \<not> is_loaded st then (Some st, [])
          else
            (case cube_geometry st of
               None \<Rightarrow> (Some st, [])
             | Some g \<Rightarrow>
                 if \<not> re_use env then (Some st, [Shader_Use_By_Id (shader_id st) False])
                 else
                   (case re_shader env of
                      None \<Rightarrow>
                        (Some st, [Shader_Use_By_Id (shader_id st) True, Shader_Get_By_Id (shader_id st)])
                    | Some s \<Rightarrow>
                        (let ev = [Shader_Use_By_Id (shader_id st) True, Shader_Get_By_Id (shader_id st)]
                         in if \<not> re_bind_globals env then (Some st, ev @ [Shader_Bind_Globals s False])
                            else if \<not> re_set_projection env then
                              (Some st, ev @ [Shader_Bind_Globals s True,
                                              Shader_Uniform_Set ''projection'' False])
                            else if \<not> re_set_view env then
                              (Some st, ev @ [Shader_Bind_Globals s True,
                                              Shader_Uniform_Set ''projection'' True,
                                              Shader_Uniform_Set ''view'' False])
                            else
                              (let ev' = ev @ [Shader_Bind_Globals s True,
                                               Shader_Uniform_Set ''projection'' True,
                                               Shader_Uniform_Set ''view'' True,
                                               Shader_Apply_Global,
                                               Shader_Bind_Instance (shader_instance_id st)];
                                   needs_update = (render_frame_number st \<noteq> frame)
                               in if \<not> re_apply_instance env then
                                    (Some st, ev' @ [Shader_Apply_Instance needs_update False])
                                  else
                                    (Some (st\<lparr>render_frame_number := frame\<rparr>),
                                     ev' @ [Shader_Apply_Instance needs_update True,
                                            Draw_Geometry g]))))))"

subsection \<open>Sequences of calls\<close>

text \<open>
  A caller reaches the state only through the entry points.  \<open>run cs sp\<close> is
  \<open>state_ptr\<close> after the calls \<open>cs\<close>, made one after the other from \<open>sp\<close>; the static
  pointer starts as null (line 41).
\<close>

datatype call =
    Initialize init_env bool "string option"
  | Shutdown unload_env
  | Load load_env name_arg
  | Unload unload_env
  | Render render_env u64

fun exec :: "call \<Rightarrow> skybox_state option \<Rightarrow> skybox_state option" where
  "exec (Initialize env state config) sp = fst (snd (skybox_system_initialize env state config sp))"
| "exec (Shutdown env) sp = fst (skybox_system_shutdown env sp)"
| "exec (Load env name) sp = fst (snd (skybox_system_load env name sp))"
| "exec (Unload env) sp = fst (skybox_system_unload env sp)"
| "exec (Render env frame) sp = fst (skybox_system_render env frame sp)"

fun run :: "call list \<Rightarrow> skybox_state option \<Rightarrow> skybox_state option" where
  "run [] sp = sp"
| "run (c # cs) sp = run cs (exec c sp)"

subsection \<open>Observations on a list of calls\<close>

text \<open>The calls that acquire, create, release or destroy a resource of the renderer.\<close>

fun is_gpu_call :: "event \<Rightarrow> bool" where
  "is_gpu_call (Cubemap_Create fp w h c) = True"
| "is_gpu_call Cubemap_Destroy = True"
| "is_gpu_call (Texture_Map_Acquire ok) = True"
| "is_gpu_call Texture_Map_Release = True"
| "is_gpu_call (Shader_Acquire_Instance s ok) = True"
| "is_gpu_call (Shader_Release_Instance s i) = True"
| "is_gpu_call e = False"

fun is_cubemap_create :: "event \<Rightarrow> bool" where
  "is_cubemap_create (Cubemap_Create fp w h c) = True"
| "is_cubemap_create e = False"

fun is_draw :: "event \<Rightarrow> bool" where
  "is_draw (Draw_Geometry g) = True"
| "is_draw e = False"

text \<open>What follows the first \<open>renderer_cubemap_create\<close> in a list of calls.\<close>

definition after_create :: "event list \<Rightarrow> event list" where
  "after_create ev = drop 1 (dropWhile (\<lambda>e. \<not> is_cubemap_create e) ev)"

text \<open>The \<open>needs_update\<close> arguments of the \<open>shader_system_apply_instance\<close> calls, in order.\<close>

fun dirty_flags :: "event list \<Rightarrow> bool list" where
  "dirty_flags [] = []"
| "dirty_flags (Shader_Apply_Instance d ok # es) = d # dirty_flags es"
| "dirty_flags (e # es) = dirty_flags es"

text \<open>
  The pixel buffers that are allocated and not yet freed after a list of calls, by
  face, starting from the buffers \<open>L\<close>; and the faces whose pointer in \<open>face_pixels\<close>
  is not null.
\<close>

fun live_buffers :: "event list \<Rightarrow> nat set \<Rightarrow> nat set" where
  "live_buffers [] L = L"
| "live_buffers (KAllocate i n # es) L = live_buffers es (insert i L)"
| "live_buffers (KFree i n # es) L = live_buffers es (L - {i})"
| "live_buffers (e # es) L = live_buffers es L"

definition held :: "face_pixels \<Rightarrow> nat set" where
  "held fp = {j. j < 6 \<and> fp ! j \<noteq> None}"

text \<open>\<open>render\<close> gets as far as \<open>shader_system_apply_instance\<close>: every call before it succeeds.\<close>

definition reaches_apply :: "render_env \<Rightarrow> bool" where
  "reaches_apply env =
     (re_use env \<and> re_shader env \<noteq> None \<and> re_bind_globals env \<and> re_set_projection env
      \<and> re_set_view env)"

text \<open>The null state pointer, or a state whose skybox shader was not found.\<close>

definition shader_missing :: "skybox_state option \<Rightarrow> bool" where
  "shader_missing sp = (case sp of None \<Rightarrow> True | Some st \<Rightarrow> shader_id st = INVALID_ID)"

text \<open>The calls that load, unload and render, as opposed to initialize and shutdown.\<close>

fun is_use :: "call \<Rightarrow> bool" where
  "is_use (Initialize env state config) = False"
| "is_use (Shutdown env) = False"
| "is_use c = True"

subsection \<open>What every reachable state satisfies\<close>

text \<open>
  The name array has its 64 bytes, it reads as the empty string while nothing is
  loaded, and while the shader id is invalid nothing is loaded and there is no cube
  geometry.
\<close>

definition state_ok :: "skybox_state \<Rightarrow> bool" where
  "state_ok st =
     (length (current_name st) = SKYBOX_NAME_MAX_LENGTH
      \<and> (is_loaded st \<or> c_str (current_name st) = [])
      \<and> (shader_id st \<noteq> INVALID_ID \<or> (\<not> is_loaded st \<and> cube_geometry st = None)))"

definition ptr_ok :: "skybox_state option \<Rightarrow> bool" where
  "ptr_ok sp = (case sp of None \<Rightarrow> True | Some st \<Rightarrow> state_ok st)"

subsection \<open>Concrete inputs\<close>

text \<open>
  An engine whose shader system knows the skybox shader under id 1, whose geometry
  system hands out the cube, and whose image loader answers every face with a 2 by 2
  image of 4 channels.
\<close>

definition example_init_env :: init_env where
  "example_init_env = \<lparr>ie_shader_id = 1, ie_geometry = Some (Geometry 0)\<rparr>"

definition example_image :: "u8 \<Rightarrow> image_resource_data" where
  "example_image c = \<lparr>img_channel_count = c, img_width = 2, img_height = 2\<rparr>"

definition example_load_env :: load_env where
  "example_load_env = \<lparr>le_unload = \<lparr>ue_shader = Some (Shader 0)\<rparr>,
     le_resource = (\<lambda>p. Some (example_image 4)), le_map_acquire = True,
     le_shader = Some (Shader 0), le_instance_acquire = True, le_instance_id = Some 0\<rparr>"

definition example_render_env :: render_env where
  "example_render_env = \<lparr>re_use = True, re_shader = Some (Shader 0), re_bind_globals = True,
     re_set_projection = True, re_set_view = True, re_apply_instance = True\<rparr>"

definition example_calls :: "call list" where
  "example_calls = [Initialize example_init_env True None, Load example_load_env (Own ''sky'')]"

text \<open>The state after \<open>example_calls\<close> (lemma \<open>run_example_calls\<close>).\<close>

definition example_loaded :: skybox_state where
  "example_loaded = \<lparr>
     current_name = string_ncopy ''sky'' SKYBOX_NAME_MAX_LENGTH,
     is_loaded = True,
     cubemap_texture = \<lparr>tex_width = 2, tex_height = 2, tex_channel_count = 4,
       tex_generation = INVALID_ID, tex_name = string_ncopy ''sky'' TEXTURE_NAME_MAX_LENGTH\<rparr>,
     cubemap_map = \<lparr>map_texture = True, map_use = TEXTURE_USE_MAP_DIFFUSE,
       map_filter_minify = TEXTURE_FILTER_MODE_LINEAR, map_filter_magnify = TEXTURE_FILTER_MODE_LINEAR,
       map_repeat_u = TEXTURE_REPEAT_CLAMP_TO_EDGE, map_repeat_v = TEXTURE_REPEAT_CLAMP_TO_EDGE,
       map_repeat_w = TEXTURE_REPEAT_CLAMP_TO_EDGE\<rparr>,
     cube_geometry = Some (Geometry 0),
     shader_id = 1,
     shader_instance_id = 0,
     render_frame_number = - 1,
     base_path = string_ncopy ''../assets/skyboxes'' 512\<rparr>"

text \<open>
  The state after a successful \<open>skybox_system_initialize\<close> alone, and an engine whose
  shader system does not know the skybox shader.
\<close>

definition example_initialized :: "skybox_state option" where
  "example_initialized = run [Initialize example_init_env True None] None"

definition no_shader_init_env :: init_env where
  "no_shader_init_env = \<lparr>ie_shader_id = INVALID_ID, ie_geometry = None\<rparr>"

text \<open>An image loader that answers the face \<open>left\<close> with 3 channels and the others with 4.\<close>

definition mixed_channels_env :: load_env where
  "mixed_channels_env = example_load_env\<lparr>le_resource :=
     (\<lambda>p. if p = ''../skyboxes/sky/left'' then Some (example_image 3) else Some (example_image 4))\<rparr>"

text \<open>The calls about the pixel buffer of face \<open>i\<close>.\<close>

fun about_buffer :: "nat \<Rightarrow> event \<Rightarrow> bool" where
  "about_buffer i (KAllocate j n) = (i = j)"
| "about_buffer i (KCopy_Memory j n) = (i = j)"
| "about_buffer i (KFree j n) = (i = j)"
| "about_buffer i e = False"


section \<open>Properties\<close>

subsection \<open>C strings\<close>

lemma c_str_zero_buf: "c_str (zero_buf n) = []"
  by (cases n) (simp_all add: c_str_def zero_buf_def)

lemma c_str_clear: "c_str (buf[0 := NUL]) = []"
  by (cases buf) (simp_all add: c_str_def)

lemma length_string_ncopy: "length (string_ncopy src n) = n"
  by (simp add: string_ncopy_def)

lemma c_str_string_ncopy:
  assumes "is_c_string src" and "length src < n"
  shows "c_str (string_ncopy src n) = src"
proof -
  have "n - length src = Suc (n - length src - 1)" using assms(2) by simp
  then obtain k where k: "n - length src = Suc k" ..
  have "takeWhile (\<lambda>c. c \<noteq> NUL) (src @ NUL # replicate k NUL) = src"
    using assms(1) by (auto simp add: is_c_string_def takeWhile_tail)
  then show ?thesis using assms(2) k by (simp add: c_str_def string_ncopy_def)
qed

lemma c_str_snoc_NUL: "c_str (buf @ [NUL]) = c_str buf"
  by (induction buf) (simp_all add: c_str_def)

lemma current_name_unloaded:
  "\<not> is_loaded st \<Longrightarrow> skybox_system_get_current_name (Some st) = Terminated (c_str (current_name st))"
  by (simp add: skybox_system_get_current_name_def c_read_of_def b8_byte_def c_str_snoc_NUL)

lemma current_name_terminated:
  "NUL \<in> set (current_name st) \<Longrightarrow>
   skybox_system_get_current_name (Some st) = Terminated (c_str (current_name st))"
  by (simp add: skybox_system_get_current_name_def c_read_of_def c_str_def)

lemma current_name_overrun:
  "is_loaded st \<Longrightarrow> NUL \<notin> set (current_name st) \<Longrightarrow>
   skybox_system_get_current_name (Some st) = Overrun (current_name st @ [CHR 0x01])"
  by (simp add: skybox_system_get_current_name_def c_read_of_def b8_byte_def NUL_def)

lemma name_text_Own: "name_text (Own s) st = s"
  by (simp add: name_text_def)

subsection \<open>Unload\<close>

lemma unload_state_loaded: "\<not> is_loaded (fst (unload_state env st))"
  by (simp add: unload_state_def split: option.splits)

lemma unload_state_shader_id: "shader_id (fst (unload_state env st)) = shader_id st"
  by (simp add: unload_state_def split: option.splits)

lemma unload_state_ok: "state_ok st \<Longrightarrow> state_ok (fst (unload_state env st))"
  by (auto simp add: unload_state_def state_ok_def c_str_clear split: option.splits)

lemma unload_state_idle: "\<not> is_loaded st \<Longrightarrow> unload_state env st = (st, [])"
  by (simp add: unload_state_def)

lemma unload_state_name: "is_loaded st \<Longrightarrow> c_str (current_name (fst (unload_state env st))) = []"
  by (simp add: unload_state_def c_str_clear split: option.splits)

lemma unload_state_events:
  "is_loaded st \<Longrightarrow>
   snd (unload_state env st) =
     (case ue_shader env of
        None \<Rightarrow> [Shader_Get_By_Id (shader_id st), Texture_Map_Release, Cubemap_Destroy]
      | Some s \<Rightarrow>
          if shader_instance_id st \<noteq> INVALID_ID
          then [Shader_Get_By_Id (shader_id st), Shader_Release_Instance s (shader_instance_id st),
                Texture_Map_Release, Cubemap_Destroy]
          else [Shader_Get_By_Id (shader_id st), Texture_Map_Release, Cubemap_Destroy])"
  by (simp add: unload_state_def split: option.splits)

lemma unload_Some:
  "fst (skybox_system_unload env (Some st)) = Some (fst (unload_state env st))"
  "snd (skybox_system_unload env (Some st)) = snd (unload_state env st)"
  by (simp_all add: skybox_system_unload_def case_prod_beta)

lemma unload_None: "skybox_system_unload env None = (None, [])"
  by (simp add: skybox_system_unload_def)

subsection \<open>The example\<close>

lemma list_update_Cons_numeral: "(x # xs)[numeral v := y] = x # xs[numeral v - 1 := y]"
  by (simp add: numeral_eq_Suc)

lemma replicate_six: "replicate 6 x = [x, x, x, x, x, x]"
  by (simp add: eval_nat_numeral)

lemma valid_ids: "(0::u32) \<noteq> INVALID_ID" "(1::u32) \<noteq> INVALID_ID"
  by (simp_all add: INVALID_ID_def)

lemmas eval_simps = skybox_system_initialize_def create_skybox_cube_def skybox_system_load_def
  load_cubemap_faces_def free_face_pixels_def unload_state_def skybox_system_unload_def
  skybox_system_render_def skybox_system_is_loaded_def skybox_system_get_current_name_def
  example_init_env_def example_image_def example_load_env_def example_render_env_def
  example_calls_def Let_def zero_state_def zero_texture_def zero_texture_map_def
  resource_name_def face_names_def list_update_Cons_numeral replicate_six valid_ids name_text_def
  load_cubemap_faces_from.simps free_face_pixels_from.simps

lemma run_example_calls: "run example_calls None = Some example_loaded"
  by (simp add: eval_simps example_loaded_def)

lemma example_loaded_ok: "is_loaded example_loaded" "shader_id example_loaded = 1"
  "shader_instance_id example_loaded = 0" "cube_geometry example_loaded = Some (Geometry 0)"
  "render_frame_number example_loaded = - 1"
  by (simp_all add: example_loaded_def)


subsection \<open>Load\<close>

lemma load_failure_state:
  assumes "state_ok st" and "skybox_system_load env name (Some st) = (False, sp', ev)"
  shows "\<exists>st'. sp' = Some st' \<and> \<not> is_loaded st' \<and> c_str (current_name st') = [] \<and> state_ok st'"
proof (cases "shader_id st = INVALID_ID")
  case True
  then show ?thesis using assms by (auto simp add: skybox_system_load_def state_ok_def)
next
  case False
  obtain st1 ev1 where u: "(if is_loaded st then unload_state (le_unload env) st else (st, [])) = (st1, ev1)"
    by force
  have st1: "state_ok st1" "\<not> is_loaded st1"
    using u assms(1) unload_state_ok [of st "le_unload env"] unload_state_loaded [of "le_unload env" st]
    by (auto split: if_splits)
  then have n1: "c_str (current_name st1) = []" "length (current_name st1) = SKYBOX_NAME_MAX_LENGTH"
    by (auto simp add: state_ok_def)
  obtain ok fp w h c ev2 where
    f: "load_cubemap_faces (le_resource env) (name_text name st1) = (ok, (fp, w, h, c), ev2)"
    by (metis prod_cases3 prod_cases4)
  obtain fp' ev3 where r: "free_face_pixels fp w h c = (fp', ev3)" by force
  show ?thesis
    using assms(2) False u f r st1 n1
    by (auto simp add: skybox_system_load_def state_ok_def Let_def split: if_splits option.splits)
qed

lemma load_success_state:
  assumes "skybox_system_load env name sp = (True, sp', ev)"
  shows "\<exists>st' st0. sp' = Some st' \<and> is_loaded st' \<and> shader_id st' \<noteq> INVALID_ID
           \<and> current_name st' = string_ncopy (name_text name st0) SKYBOX_NAME_MAX_LENGTH"
proof (cases sp)
  case None
  then show ?thesis using assms by (simp add: skybox_system_load_def)
next
  case (Some st)
  obtain st1 ev1 where u: "(if is_loaded st then unload_state (le_unload env) st else (st, [])) = (st1, ev1)"
    by force
  have s1: "shader_id st1 = shader_id st"
    using u unload_state_shader_id [of "le_unload env" st] by (auto split: if_splits)
  obtain ok fp w h c ev2 where
    f: "load_cubemap_faces (le_resource env) (name_text name st1) = (ok, (fp, w, h, c), ev2)"
    by (metis prod_cases3 prod_cases4)
  obtain fp' ev3 where r: "free_face_pixels fp w h c = (fp', ev3)" by force
  show ?thesis
    using assms Some u f r s1
    by (auto simp add: skybox_system_load_def Let_def split: if_splits option.splits)
qed

lemma load_ok: "ptr_ok sp \<Longrightarrow> ptr_ok (fst (snd (skybox_system_load env name sp)))"
proof (cases sp)
  case None
  then show ?thesis by (simp add: skybox_system_load_def ptr_ok_def)
next
  case (Some st)
  assume "ptr_ok sp"
  then have ok: "state_ok st" using Some by (simp add: ptr_ok_def)
  obtain r sp' ev where l: "skybox_system_load env name (Some st) = (r, sp', ev)"
    by (metis prod_cases3)
  show ?thesis
  proof (cases r)
    case True
    then show ?thesis
      using load_success_state [of env name "Some st" sp' ev] l Some
      by (auto simp add: ptr_ok_def state_ok_def length_string_ncopy)
  next
    case False
    then show ?thesis
      using load_failure_state [OF ok, of env name sp' ev] l Some
      by (auto simp add: ptr_ok_def)
  qed
qed

subsection \<open>The invariant over sequences of calls\<close>

lemma initialize_ok: "ptr_ok sp \<Longrightarrow> ptr_ok (fst (snd (skybox_system_initialize env state config sp)))"
  by (simp add: skybox_system_initialize_def create_skybox_cube_def Let_def ptr_ok_def state_ok_def
      zero_state_def zero_buf_def c_str_zero_buf [unfolded zero_buf_def])

lemma shutdown_ok: "ptr_ok (fst (skybox_system_shutdown env sp))"
  by (simp add: skybox_system_shutdown_def ptr_ok_def split: option.splits prod.splits)

lemma unload_ok: "ptr_ok sp \<Longrightarrow> ptr_ok (fst (skybox_system_unload env sp))"
proof (cases sp)
  case None
  then show ?thesis by (simp add: skybox_system_unload_def ptr_ok_def)
next
  case (Some st)
  assume "ptr_ok sp"
  then have "state_ok (fst (unload_state env st))"
    using Some unload_state_ok [of st env] by (simp add: ptr_ok_def)
  then show ?thesis
    using Some by (auto simp add: skybox_system_unload_def ptr_ok_def split: prod.splits)
qed

lemma render_state:
  "fst (skybox_system_render env frame sp) = sp
   \<or> (\<exists>st. sp = Some st \<and> fst (skybox_system_render env frame sp) = Some (st\<lparr>render_frame_number := frame\<rparr>))"
  by (simp add: skybox_system_render_def Let_def split: option.splits)

lemma render_ok: "ptr_ok sp \<Longrightarrow> ptr_ok (fst (skybox_system_render env frame sp))"
  using render_state [of env frame sp] by (auto simp add: ptr_ok_def state_ok_def)

lemma exec_ok: "ptr_ok sp \<Longrightarrow> ptr_ok (exec c sp)"
  by (cases c) (simp_all add: initialize_ok shutdown_ok load_ok unload_ok render_ok)

lemma run_ok: "ptr_ok sp \<Longrightarrow> ptr_ok (run cs sp)"
  by (induction cs arbitrary: sp) (simp_all add: exec_ok)

lemma reachable_ok: "ptr_ok (run cs None)"
  by (rule run_ok) (simp add: ptr_ok_def)

subsection \<open>A failed load\<close>

text \<open>
  C3.  In every state that a sequence of calls of the entry points reaches from the
  initial null pointer, and for every name and every answer of the collaborators: when
  \<open>skybox_system_load\<close> returns false, \<open>skybox_system_is_loaded\<close> is false afterwards and
  \<open>skybox_system_get_current_name\<close> is the empty string, also when a skybox was loaded
  before the call.
\<close>

theorem failed_load_leaves_unloaded:
  assumes "skybox_system_load env name (run cs None) = (False, sp', ev)"
  shows "\<not> skybox_system_is_loaded sp' \<and> skybox_system_get_current_name sp' = Terminated []"
proof (cases "run cs None")
  case None
  then show ?thesis
    using assms
    by (auto simp add: skybox_system_load_def skybox_system_is_loaded_def skybox_system_get_current_name_def)
next
  case (Some st)
  have "state_ok st" using reachable_ok [of cs] Some by (simp add: ptr_ok_def)
  from load_failure_state [OF this, of env name sp' ev] assms Some
  show ?thesis
    by (auto simp add: skybox_system_is_loaded_def current_name_unloaded)
qed

theorem failed_load_leaves_unloaded_witness:
  "skybox_system_is_loaded (run example_calls None)
   \<and> fst (skybox_system_load (example_load_env\<lparr>le_resource := (\<lambda>p. None)\<rparr>) (Own ''night'') (run example_calls None)) = False
   \<and> \<not> skybox_system_is_loaded
        (fst (snd (skybox_system_load (example_load_env\<lparr>le_resource := (\<lambda>p. None)\<rparr>) (Own ''night'') (run example_calls None))))
   \<and> skybox_system_get_current_name
        (fst (snd (skybox_system_load (example_load_env\<lparr>le_resource := (\<lambda>p. None)\<rparr>) (Own ''night'') (run example_calls None)))) = Terminated []"
proof -
  let ?r = "skybox_system_load (example_load_env\<lparr>le_resource := (\<lambda>p. None)\<rparr>) (Own ''night'') (run example_calls None)"
  have f: "fst ?r = False"
    by (simp add: run_example_calls example_loaded_ok eval_simps)
  then have "?r = (False, fst (snd ?r), snd (snd ?r))"
    by (simp add: prod_eq_iff)
  from failed_load_leaves_unloaded [OF this] f show ?thesis
    by (simp add: run_example_calls skybox_system_is_loaded_def example_loaded_ok)
qed


subsection \<open>Load, then unload\<close>

text \<open>
  Loading through the pointer that \<open>skybox_system_get_current_name\<close> returned: the
  unload of line 142 clears the array before the name is read, so the skybox of the
  empty name is asked for and the name is empty afterwards.
\<close>

lemma load_of_current_name:
  "skybox_system_get_current_name (run example_calls None) = Terminated ''sky''
   \<and> fst (skybox_system_load example_load_env Current_Name (run example_calls None)) = True
   \<and> filter (\<lambda>e. e = Resource_Load ''../skyboxes//right'' True)
        (snd (snd (skybox_system_load example_load_env Current_Name (run example_calls None))))
       = [Resource_Load ''../skyboxes//right'' True]
   \<and> skybox_system_get_current_name
        (fst (snd (skybox_system_load example_load_env Current_Name (run example_calls None))))
       = Terminated []"
  by (simp add: run_example_calls example_loaded_def eval_simps c_str_def c_read_of_def b8_byte_def
      string_ncopy_def NUL_def SKYBOX_NAME_MAX_LENGTH_def)

text \<open>
  C5, as stated, fails for a name that does not fit the 64 bytes of \<open>current_name\<close>
  together with its terminating NUL: after the successful load of a name of 64
  characters the array holds them and no NUL, and the string read through
  \<open>skybox_system_get_current_name\<close> goes on with the byte 1 of \<open>is_loaded\<close> and what lies
  behind it; it is not that name.
\<close>

theorem long_name_is_cut:
  "fst (skybox_system_load example_load_env (Own (replicate 64 CHR ''a''))
          (run [Initialize example_init_env True None] None)) = True
   \<and> skybox_system_get_current_name
        (fst (snd (skybox_system_load example_load_env (Own (replicate 64 CHR ''a''))
          (run [Initialize example_init_env True None] None))))
       = Overrun (replicate 64 CHR ''a'' @ [CHR 0x01])"
  by (simp add: eval_simps string_ncopy_def c_read_of_def b8_byte_def NUL_def SKYBOX_NAME_MAX_LENGTH_def)

text \<open>
  C5, amended.  For every name of fewer than 64 characters that the caller holds in a
  string of its own (a C string: no NUL in it; not the pointer that
  \<open>skybox_system_get_current_name\<close> returned), after a successful \<open>skybox_system_load\<close>
  of it, from any state, \<open>skybox_system_is_loaded\<close> is true and
  \<open>skybox_system_get_current_name\<close> is exactly the name; after a following
  \<open>skybox_system_unload\<close>, \<open>skybox_system_is_loaded\<close> is false and the name is empty.
\<close>

theorem load_then_unload:
  assumes "is_c_string s" and "length s < SKYBOX_NAME_MAX_LENGTH"
    and "skybox_system_load env (Own s) sp = (True, sp', ev)"
  shows "skybox_system_is_loaded sp' \<and> skybox_system_get_current_name sp' = Terminated s
    \<and> \<not> skybox_system_is_loaded (fst (skybox_system_unload uenv sp'))
    \<and> skybox_system_get_current_name (fst (skybox_system_unload uenv sp')) = Terminated []"
proof -
  from load_success_state [OF assms(3)] obtain st' where
    st': "sp' = Some st'" "is_loaded st'" "current_name st' = string_ncopy s SKYBOX_NAME_MAX_LENGTH"
    by (auto simp add: name_text_Own)
  have "NUL \<in> set (current_name st')"
    using st'(3) assms(2) by (simp add: string_ncopy_def)
  then have "skybox_system_get_current_name (Some st') = Terminated s"
    using st'(3) c_str_string_ncopy [OF assms(1,2)] by (simp add: current_name_terminated)
  moreover have u: "\<not> is_loaded (fst (unload_state uenv st'))"
    by (rule unload_state_loaded)
  moreover have "c_str (current_name (fst (unload_state uenv st'))) = []"
    using st'(2) by (rule unload_state_name)
  ultimately show ?thesis
    using st'(1,2) current_name_unloaded [OF u]
    by (simp add: skybox_system_is_loaded_def unload_Some)
qed

theorem load_then_unload_witness:
  "is_c_string ''sky'' \<and> length ''sky'' < SKYBOX_NAME_MAX_LENGTH
   \<and> fst (skybox_system_load example_load_env (Own ''sky'') (run [Initialize example_init_env True None] None)) = True
   \<and> skybox_system_is_loaded (run example_calls None)
   \<and> skybox_system_get_current_name (run example_calls None) = Terminated ''sky''
   \<and> \<not> skybox_system_is_loaded (fst (skybox_system_unload \<lparr>ue_shader = None\<rparr> (run example_calls None)))
   \<and> skybox_system_get_current_name (fst (skybox_system_unload \<lparr>ue_shader = None\<rparr> (run example_calls None)))
       = Terminated []"
proof -
  let ?sp = "run [Initialize example_init_env True None] None"
  let ?r = "skybox_system_load example_load_env (Own ''sky'') ?sp"
  have c: "is_c_string ''sky''" by (simp add: is_c_string_def NUL_def)
  have l: "length ''sky'' < SKYBOX_NAME_MAX_LENGTH" by (simp add: SKYBOX_NAME_MAX_LENGTH_def)
  have f: "fst ?r = True" by (simp add: eval_simps)
  have s: "fst (snd ?r) = run example_calls None" by (simp add: example_calls_def)
  from f s have "?r = (True, run example_calls None, snd (snd ?r))"
    by (simp add: prod_eq_iff)
  from load_then_unload [OF c l this, of "\<lparr>ue_shader = None\<rparr>"] c l f show ?thesis
    by simp
qed

subsection \<open>Unload, once and twice\<close>

text \<open>
  C6, as stated, fails where the shader lookup of \<open>skybox_system_unload\<close> finds no
  shader: a skybox is loaded, and the call releases the texture map and the cubemap but
  no shader instance.
\<close>

theorem unload_without_shader:
  "skybox_system_is_loaded (run example_calls None)
   \<and> snd (skybox_system_unload \<lparr>ue_shader = None\<rparr> (run example_calls None))
       = [Shader_Get_By_Id 1, Texture_Map_Release, Cubemap_Destroy]"
  by (simp add: run_example_calls skybox_system_is_loaded_def unload_Some
      unload_state_events example_loaded_ok)

text \<open>
  C6, amended.  \<open>skybox_system_unload\<close> with nothing loaded makes no call and leaves
  the state as it is, so a second unload in a row does nothing.  With a skybox loaded it
  looks the shader up and releases the shader instance if the lookup finds the shader
  and the stored instance id is not \<open>INVALID_ID\<close> (it skips this release otherwise), then
  releases the texture map, then destroys the cubemap, then clears the name and the
  loaded flag.
\<close>

theorem unload_idempotent_ordered:
  "(\<not> skybox_system_is_loaded sp \<longrightarrow> skybox_system_unload env sp = (sp, []))
   \<and> skybox_system_unload env' (fst (skybox_system_unload env sp))
       = (fst (skybox_system_unload env sp), [])
   \<and> (is_loaded st \<longrightarrow>
        \<not> skybox_system_is_loaded (fst (skybox_system_unload env (Some st)))
        \<and> skybox_system_get_current_name (fst (skybox_system_unload env (Some st))) = Terminated []
        \<and> snd (skybox_system_unload env (Some st))
            = Shader_Get_By_Id (shader_id st)
              # (case ue_shader env of
                   None \<Rightarrow> []
                 | Some s \<Rightarrow>
                     if shader_instance_id st \<noteq> INVALID_ID
                     then [Shader_Release_Instance s (shader_instance_id st)] else [])
              @ [Texture_Map_Release, Cubemap_Destroy])"
proof -
  have idle: "\<not> skybox_system_is_loaded p \<Longrightarrow> skybox_system_unload e p = (p, [])" for e p
    by (cases p) (simp_all add: skybox_system_unload_def skybox_system_is_loaded_def unload_state_idle)
  have unl: "\<not> skybox_system_is_loaded (fst (skybox_system_unload e p))" for e p
    by (cases p) (simp_all add: unload_Some unload_None skybox_system_is_loaded_def unload_state_loaded)
  have "skybox_system_get_current_name (fst (skybox_system_unload env (Some st))) = Terminated []"
    if "is_loaded st"
    using unload_state_name [OF that, of env] unload_state_loaded [of env st]
    by (simp add: unload_Some current_name_unloaded)
  moreover have "snd (skybox_system_unload env (Some st))
            = Shader_Get_By_Id (shader_id st)
              # (case ue_shader env of
                   None \<Rightarrow> []
                 | Some s \<Rightarrow>
                     if shader_instance_id st \<noteq> INVALID_ID
                     then [Shader_Release_Instance s (shader_instance_id st)] else [])
              @ [Texture_Map_Release, Cubemap_Destroy]"
    if "is_loaded st"
    using unload_state_events [OF that, of env]
    by (simp add: unload_Some split: option.splits)
  ultimately show ?thesis
    using idle [of sp env] idle [OF unl, of env' env sp] unl [of env "Some st"] by blast
qed

theorem unload_idempotent_ordered_witness:
  "\<not> skybox_system_is_loaded None
   \<and> skybox_system_unload \<lparr>ue_shader = Some (Shader 0)\<rparr> None = (None, [])
   \<and> is_loaded example_loaded
   \<and> \<not> skybox_system_is_loaded (fst (skybox_system_unload \<lparr>ue_shader = Some (Shader 0)\<rparr> (Some example_loaded)))
   \<and> snd (skybox_system_unload \<lparr>ue_shader = Some (Shader 0)\<rparr> (Some example_loaded))
       = [Shader_Get_By_Id 1, Shader_Release_Instance (Shader 0) 0, Texture_Map_Release, Cubemap_Destroy]
   \<and> snd (skybox_system_unload \<lparr>ue_shader = Some (Shader 0)\<rparr>
        (fst (skybox_system_unload \<lparr>ue_shader = Some (Shader 0)\<rparr> (Some example_loaded)))) = []"
proof -
  have n: "\<not> skybox_system_is_loaded None" by (simp add: skybox_system_is_loaded_def)
  have l: "is_loaded example_loaded" by (simp add: example_loaded_ok)
  from unload_idempotent_ordered
    [of None "\<lparr>ue_shader = Some (Shader 0)\<rparr>" "\<lparr>ue_shader = Some (Shader 0)\<rparr>" example_loaded]
    unload_idempotent_ordered
    [of "Some example_loaded" "\<lparr>ue_shader = Some (Shader 0)\<rparr>" "\<lparr>ue_shader = Some (Shader 0)\<rparr>" example_loaded]
    n l
  show ?thesis by (simp add: example_loaded_ok valid_ids)
qed

subsection \<open>Render\<close>

lemma render_reaching_apply:
  assumes "is_loaded st" and "cube_geometry st = Some g" and "reaches_apply env"
  shows "fst (skybox_system_render env frame (Some st))
           = Some (if re_apply_instance env then st\<lparr>render_frame_number := frame\<rparr> else st)"
    and "dirty_flags (snd (skybox_system_render env frame (Some st))) = [render_frame_number st \<noteq> frame]"
    and "filter is_draw (snd (skybox_system_render env frame (Some st)))
           = (if re_apply_instance env then [Draw_Geometry g] else [])"
  using assms
  by (auto simp add: skybox_system_render_def reaches_apply_def Let_def)

text \<open>
  C8.  \<open>skybox_system_render\<close> makes no call and changes nothing when the state pointer
  is null, nothing is loaded or the cube geometry is absent.  When the shader
  activation, the shader lookup, the global bind, one of the two uniform sets or the
  instance apply fails, no draw call is made and the whole state stays as it was.  In
  every case the loaded flag and the name are what they were.
\<close>

theorem render_noop_or_abort:
  "((sp = None \<or> \<not> skybox_system_is_loaded sp \<or> (\<exists>st. sp = Some st \<and> cube_geometry st = None))
      \<longrightarrow> skybox_system_render env frame sp = (sp, []))
   \<and> (\<not> (reaches_apply env \<and> re_apply_instance env)
      \<longrightarrow> fst (skybox_system_render env frame sp) = sp
          \<and> filter is_draw (snd (skybox_system_render env frame sp)) = [])
   \<and> skybox_system_is_loaded (fst (skybox_system_render env frame sp)) = skybox_system_is_loaded sp
   \<and> skybox_system_get_current_name (fst (skybox_system_render env frame sp))
       = skybox_system_get_current_name sp"
proof (cases sp)
  case None
  then show ?thesis by (simp add: skybox_system_render_def)
next
  case (Some st)
  then show ?thesis
    by (auto simp add: skybox_system_render_def reaches_apply_def Let_def
        skybox_system_is_loaded_def skybox_system_get_current_name_def split: option.splits)
qed

theorem render_noop_or_abort_witness:
  "skybox_system_render example_render_env 7 None = (None, [])
   \<and> \<not> (reaches_apply (example_render_env\<lparr>re_bind_globals := False\<rparr>)
          \<and> re_apply_instance (example_render_env\<lparr>re_bind_globals := False\<rparr>))
   \<and> skybox_system_is_loaded (run example_calls None)
   \<and> skybox_system_render (example_render_env\<lparr>re_bind_globals := False\<rparr>) 7 (run example_calls None)
       = (run example_calls None,
          [Shader_Use_By_Id 1 True, Shader_Get_By_Id 1, Shader_Bind_Globals (Shader 0) False])
   \<and> skybox_system_is_loaded
        (fst (skybox_system_render (example_render_env\<lparr>re_bind_globals := False\<rparr>) 7 (run example_calls None)))"
proof -
  let ?e = "example_render_env\<lparr>re_bind_globals := False\<rparr>"
  have h: "\<not> (reaches_apply ?e \<and> re_apply_instance ?e)"
    by (simp add: reaches_apply_def example_render_env_def)
  have l: "skybox_system_is_loaded (run example_calls None)"
    by (simp add: run_example_calls skybox_system_is_loaded_def example_loaded_ok)
  have t: "snd (skybox_system_render ?e 7 (run example_calls None))
       = [Shader_Use_By_Id 1 True, Shader_Get_By_Id 1, Shader_Bind_Globals (Shader 0) False]"
    by (simp add: run_example_calls skybox_system_render_def example_loaded_ok example_render_env_def)
  from render_noop_or_abort [of None example_render_env 7]
    render_noop_or_abort [of "run example_calls None" ?e 7] h l t
  show ?thesis by (simp add: prod_eq_iff)
qed

text \<open>
  C7, as stated, fails when the instance apply of the first call fails: the frame
  number is not stored then, and a second call with the same frame number applies the
  instance with the dirty flag set again.
\<close>

theorem same_frame_dirty_again:
  "skybox_system_is_loaded (run example_calls None)
   \<and> dirty_flags (snd (skybox_system_render (example_render_env\<lparr>re_apply_instance := False\<rparr>) 7
        (run example_calls None))) = [True]
   \<and> dirty_flags (snd (skybox_system_render example_render_env 7
        (fst (skybox_system_render (example_render_env\<lparr>re_apply_instance := False\<rparr>) 7
           (run example_calls None))))) = [True]"
  by (simp add: run_example_calls skybox_system_is_loaded_def skybox_system_render_def
      example_loaded_ok example_render_env_def)

text \<open>
  C7, amended.  For every loaded state with the cube geometry present and every frame
  number \<open>N\<close>, a \<open>skybox_system_render\<close> whose calls before the instance apply all succeed
  applies the shader instance once, with the dirty flag
  \<open>stored frame number \<noteq> N\<close>, and stores \<open>N\<close> if that apply succeeds (it leaves the stored
  number as it was, and draws nothing, if the apply fails).  Hence after a render with
  \<open>N\<close> whose apply succeeds, a render with the same \<open>N\<close> applies the instance with the
  dirty flag clear, and a following render with \<open>N + 1\<close> applies it with the flag set.
\<close>

theorem render_frame_tracking:
  assumes "is_loaded st" and "cube_geometry st \<noteq> None"
    and "reaches_apply e1" and "re_apply_instance e1"
    and "reaches_apply e2" and "reaches_apply e3"
  shows "dirty_flags (snd (skybox_system_render e1 N (Some st))) = [render_frame_number st \<noteq> N]
    \<and> fst (skybox_system_render e1 N (Some st)) = Some (st\<lparr>render_frame_number := N\<rparr>)
    \<and> dirty_flags (snd (skybox_system_render e2 N (fst (skybox_system_render e1 N (Some st))))) = [False]
    \<and> dirty_flags (snd (skybox_system_render e3 (N + 1)
         (fst (skybox_system_render e2 N (fst (skybox_system_render e1 N (Some st))))))) = [True]"
proof -
  obtain g where g: "cube_geometry st = Some g" using assms(2) by blast
  let ?st1 = "st\<lparr>render_frame_number := N\<rparr>"
  have s1: "fst (skybox_system_render e1 N (Some st)) = Some ?st1"
    using render_reaching_apply(1) [OF assms(1) g assms(3), of N] assms(4) by simp
  have l1: "is_loaded ?st1" "cube_geometry ?st1 = Some g" using assms(1) g by simp_all
  have s2: "fst (skybox_system_render e2 N (Some ?st1)) = Some ?st1"
    using render_reaching_apply(1) [OF l1 assms(5), of N] by simp
  have "N + 1 \<noteq> N" by simp
  then show ?thesis
    using s1 s2 render_reaching_apply(2) [OF assms(1) g assms(3), of N]
      render_reaching_apply(2) [OF l1 assms(5), of N]
      render_reaching_apply(2) [OF l1 assms(6), of "N + 1"]
    by simp
qed

theorem render_frame_tracking_witness:
  "is_loaded example_loaded \<and> cube_geometry example_loaded \<noteq> None
   \<and> reaches_apply example_render_env \<and> re_apply_instance example_render_env
   \<and> dirty_flags (snd (skybox_system_render example_render_env 7 (Some example_loaded))) = [True]
   \<and> dirty_flags (snd (skybox_system_render example_render_env 7
        (fst (skybox_system_render example_render_env 7 (Some example_loaded))))) = [False]
   \<and> dirty_flags (snd (skybox_system_render example_render_env 8
        (fst (skybox_system_render example_render_env 7
           (fst (skybox_system_render example_render_env 7 (Some example_loaded))))))) = [True]"
proof -
  have a: "is_loaded example_loaded" "cube_geometry example_loaded \<noteq> None"
    by (simp_all add: example_loaded_ok)
  have r: "reaches_apply example_render_env" "re_apply_instance example_render_env"
    by (simp_all add: reaches_apply_def example_render_env_def)
  have n: "(render_frame_number example_loaded \<noteq> 7) = True"
    by (simp add: example_loaded_ok)
  have e: "(7::u64) + 1 = 8" by simp
  note t = render_frame_tracking [OF a r r(1) r(1), of 7, unfolded n e]
  from t a r show ?thesis by blast
qed


subsection \<open>The face loops make no renderer call\<close>

lemma free_from_no_gpu: "filter is_gpu_call (snd (free_face_pixels_from i fp sz)) = []"
proof (induction i fp sz rule: free_face_pixels_from.induct)
  case (1 i fp sz)
  show ?case
    apply (subst free_face_pixels_from.simps)
    using 1 apply (auto simp add: case_prod_beta split: option.splits)
    done
qed

lemma free_no_gpu: "filter is_gpu_call (snd (free_face_pixels fp w h c)) = []"
  by (simp add: free_face_pixels_def free_from_no_gpu)

lemma faces_from_no_gpu:
  "filter is_gpu_call (snd (snd (load_cubemap_faces_from i rl name fp w h c))) = []"
proof (induction i rl name fp w h c rule: load_cubemap_faces_from.induct)
  case (1 i rl name fp w h c)
  show ?case
    apply (subst load_cubemap_faces_from.simps)
    using 1 apply (auto simp add: free_no_gpu case_prod_beta split: option.splits)
    done
qed

lemma faces_no_gpu: "filter is_gpu_call (snd (snd (load_cubemap_faces rl name))) = []"
  by (simp add: load_cubemap_faces_def faces_from_no_gpu)

lemma create_is_gpu: "is_cubemap_create e \<Longrightarrow> is_gpu_call e"
  by (cases e) simp_all

lemma no_gpu_no_create:
  "filter is_gpu_call ev = [] \<Longrightarrow> e \<in> set ev \<Longrightarrow> \<not> is_cubemap_create e"
  by (auto simp add: filter_empty_conv dest: create_is_gpu)

lemma unload_state_no_create: "e \<in> set (snd (unload_state env st)) \<Longrightarrow> \<not> is_cubemap_create e"
  by (auto simp add: unload_state_def split: if_splits option.splits)

subsection \<open>The shader instance id after initialize\<close>

text \<open>
  C9 fails on the code.  After a successful \<open>skybox_system_initialize\<close> (shader found,
  cube created) nothing is loaded, and the shader instance id is 0, left by
  \<open>kzero_memory\<close>, which is not the sentinel \<open>INVALID_ID\<close>.
\<close>

theorem instance_id_valid_after_initialize:
  "fst (skybox_system_initialize example_init_env True None None) = True
   \<and> \<not> skybox_system_is_loaded (run [Initialize example_init_env True None] None)
   \<and> map_option shader_instance_id (run [Initialize example_init_env True None] None) = Some 0
   \<and> (0::u32) \<noteq> INVALID_ID"
  by (simp add: eval_simps)

subsection \<open>No state, or no shader\<close>

lemma degraded_noop:
  assumes "shader_missing sp" and "ptr_ok sp"
  shows "skybox_system_load env name sp = (False, sp, [])"
    and "\<not> skybox_system_is_loaded sp"
    and "skybox_system_get_current_name sp = Terminated []"
    and "skybox_system_render renv frame sp = (sp, [])"
    and "skybox_system_unload uenv sp = (sp, [])"
    and "skybox_system_shutdown uenv sp = (None, [])"
  using assms
  by (auto simp add: shader_missing_def ptr_ok_def state_ok_def skybox_system_load_def
      skybox_system_is_loaded_def skybox_system_get_current_name_def c_read_of_def b8_byte_def
      c_str_snoc_NUL skybox_system_render_def
      skybox_system_unload_def skybox_system_shutdown_def unload_state_idle split: option.splits)

lemma degraded_exec:
  assumes "shader_missing sp" and "ptr_ok sp" and "is_use c"
  shows "exec c sp = sp"
  using assms(3) degraded_noop(1,4,5) [OF assms(1,2)] by (cases c) simp_all

lemma degraded_run: "shader_missing sp \<Longrightarrow> ptr_ok sp \<Longrightarrow> list_all is_use cs \<Longrightarrow> run cs sp = sp"
  by (induction cs) (simp_all add: degraded_exec)

lemma initialize_without_shader:
  assumes "ie_shader_id env = INVALID_ID"
  shows "fst (skybox_system_initialize env state config sp) = True"
    and "snd (snd (skybox_system_initialize env state config sp)) = (if state then [Shader_System_Get_Id] else [])"
    and "shader_missing (fst (snd (skybox_system_initialize env True config sp)))"
    and "ptr_ok (fst (snd (skybox_system_initialize env True config sp)))"
  using assms
  by (simp_all add: skybox_system_initialize_def Let_def shader_missing_def ptr_ok_def state_ok_def
      zero_state_def zero_buf_def c_str_zero_buf [unfolded zero_buf_def])

text \<open>
  C10.  When the state pointer is null, or the last \<open>skybox_system_initialize\<close> did not
  find the skybox shader (whatever loads, unloads and renders came after it):
  \<open>skybox_system_load\<close> returns false, \<open>skybox_system_is_loaded\<close> is false,
  \<open>skybox_system_get_current_name\<close> is the empty string, \<open>skybox_system_render\<close> and
  \<open>skybox_system_unload\<close> return at once; none of them calls a collaborator or changes
  the state, and \<open>skybox_system_shutdown\<close> calls no collaborator either.
  \<open>skybox_system_initialize\<close> returns true when the shader is missing, and has called
  nothing but the shader lookup.
\<close>

theorem degraded_entry_points:
  assumes "sp = None
    \<or> (ie_shader_id ienv = INVALID_ID \<and> list_all is_use cs
        \<and> sp = run cs (fst (snd (skybox_system_initialize ienv True config sp0))))"
  shows "skybox_system_load env name sp = (False, sp, [])
    \<and> \<not> skybox_system_is_loaded sp
    \<and> skybox_system_get_current_name sp = Terminated []
    \<and> skybox_system_render renv frame sp = (sp, [])
    \<and> skybox_system_unload uenv sp = (sp, [])
    \<and> skybox_system_shutdown uenv sp = (None, [])
    \<and> (ie_shader_id ienv = INVALID_ID \<longrightarrow>
         fst (skybox_system_initialize ienv state config sp0) = True
         \<and> snd (snd (skybox_system_initialize ienv state config sp0))
             = (if state then [Shader_System_Get_Id] else []))"
proof -
  have "shader_missing sp \<and> ptr_ok sp"
  proof (cases "sp = None")
    case True
    then show ?thesis by (simp add: shader_missing_def ptr_ok_def)
  next
    case False
    let ?sp1 = "fst (snd (skybox_system_initialize ienv True config sp0))"
    from False assms have a: "ie_shader_id ienv = INVALID_ID" "list_all is_use cs" "sp = run cs ?sp1"
      by auto
    have "shader_missing ?sp1" "ptr_ok ?sp1"
      using initialize_without_shader(3,4) [OF a(1)] by simp_all
    then show ?thesis using degraded_run [of ?sp1 cs] a(2,3) by simp
  qed
  then have m: "shader_missing sp" and p: "ptr_ok sp" by simp_all
  show ?thesis
    using degraded_noop [OF m p] initialize_without_shader(1,2) [of ienv state config sp0]
    by simp
qed

theorem degraded_entry_points_witness:
  "ie_shader_id no_shader_init_env = INVALID_ID
   \<and> list_all is_use [Load example_load_env (Own ''sky''), Render example_render_env 3]
   \<and> fst (skybox_system_initialize no_shader_init_env True None None) = True
   \<and> snd (snd (skybox_system_initialize no_shader_init_env True None None)) = [Shader_System_Get_Id]
   \<and> fst (skybox_system_load example_load_env (Own ''sky'')
        (run [Load example_load_env (Own ''sky''), Render example_render_env 3]
          (fst (snd (skybox_system_initialize no_shader_init_env True None None))))) = False
   \<and> snd (snd (skybox_system_load example_load_env (Own ''sky'')
        (run [Load example_load_env (Own ''sky''), Render example_render_env 3]
          (fst (snd (skybox_system_initialize no_shader_init_env True None None)))))) = []
   \<and> \<not> skybox_system_is_loaded
        (run [Load example_load_env (Own ''sky''), Render example_render_env 3]
          (fst (snd (skybox_system_initialize no_shader_init_env True None None))))
   \<and> snd (skybox_system_render example_render_env 4
        (run [Load example_load_env (Own ''sky''), Render example_render_env 3]
          (fst (snd (skybox_system_initialize no_shader_init_env True None None))))) = []"
proof -
  let ?cs = "[Load example_load_env (Own ''sky''), Render example_render_env 3]"
  let ?sp = "run ?cs (fst (snd (skybox_system_initialize no_shader_init_env True None None)))"
  have a: "ie_shader_id no_shader_init_env = INVALID_ID" by (simp add: no_shader_init_env_def)
  have b: "list_all is_use ?cs" by simp
  have "?sp = None \<or> (ie_shader_id no_shader_init_env = INVALID_ID \<and> list_all is_use ?cs \<and> ?sp = ?sp)"
    using a b by blast
  note t = degraded_entry_points [OF this, of example_load_env "Own ''sky''" example_render_env 4 _ True]
  from t a b show ?thesis by simp
qed


subsection \<open>Replacing a loaded skybox\<close>

lemma load_after_unload_state:
  assumes "is_loaded st" and "shader_id st \<noteq> INVALID_ID"
  shows "skybox_system_load env name (Some st)
    = (fst (skybox_system_load env name (Some (fst (unload_state (le_unload env) st)))),
       fst (snd (skybox_system_load env name (Some (fst (unload_state (le_unload env) st))))),
       snd (unload_state (le_unload env) st)
         @ snd (snd (skybox_system_load env name (Some (fst (unload_state (le_unload env) st))))))"
proof -
  let ?st1 = "fst (unload_state (le_unload env) st)"
  have a: "\<not> is_loaded ?st1" "shader_id ?st1 \<noteq> INVALID_ID"
    using assms(2) by (simp_all add: unload_state_loaded unload_state_shader_id)
  obtain ok fp w h c ev2 where
    f: "load_cubemap_faces (le_resource env) (name_text name ?st1) = (ok, (fp, w, h, c), ev2)"
    by (metis prod_cases3 prod_cases4)
  obtain fp' ev3 where r: "free_face_pixels fp w h c = (fp', ev3)" by force
  show ?thesis
    using assms a f r
    by (simp add: skybox_system_load_def Let_def case_prod_beta split: option.splits)
qed

text \<open>
  C2, as stated, fails where the shader lookup of the unload finds no shader: a skybox
  is loaded, the load of another one succeeds, and among the renderer calls of that load
  there is no release of the previous shader instance before the new cubemap, map and
  instance are acquired.
\<close>

theorem replace_without_instance_release:
  "skybox_system_is_loaded (run example_calls None)
   \<and> fst (skybox_system_load (example_load_env\<lparr>le_unload := \<lparr>ue_shader = None\<rparr>\<rparr>) (Own ''night'')
        (run example_calls None)) = True
   \<and> filter is_gpu_call
        (snd (snd (skybox_system_load (example_load_env\<lparr>le_unload := \<lparr>ue_shader = None\<rparr>\<rparr>) (Own ''night'')
          (run example_calls None))))
       = [Texture_Map_Release, Cubemap_Destroy,
          Cubemap_Create [Some 16, Some 16, Some 16, Some 16, Some 16, Some 16] 2 2 4,
          Texture_Map_Acquire True, Shader_Acquire_Instance (Shader 0) True]"
  by (simp add: run_example_calls example_loaded_ok eval_simps)

text \<open>
  C2, amended.  There is one state, so at most one skybox is loaded.  Whenever
  \<open>skybox_system_load\<close> is called while a skybox is loaded, it does what
  \<open>skybox_system_unload\<close> followed by \<open>skybox_system_load\<close> on the unloaded state does, the
  calls of the unload coming first.  That unload releases the texture-map resources and
  then destroys the cubemap, and before them releases the shader instance if its shader
  lookup succeeds and the stored instance id is not \<open>INVALID_ID\<close>; it acquires nothing.
\<close>

theorem load_unloads_previous_first:
  assumes "run cs None = Some st" and "is_loaded st"
  shows "skybox_system_load env name (Some st)
      = (fst (skybox_system_load env name (fst (skybox_system_unload (le_unload env) (Some st)))),
         fst (snd (skybox_system_load env name (fst (skybox_system_unload (le_unload env) (Some st))))),
         snd (skybox_system_unload (le_unload env) (Some st))
           @ snd (snd (skybox_system_load env name (fst (skybox_system_unload (le_unload env) (Some st))))))
    \<and> \<not> skybox_system_is_loaded (fst (skybox_system_unload (le_unload env) (Some st)))
    \<and> snd (skybox_system_unload (le_unload env) (Some st))
        = Shader_Get_By_Id (shader_id st)
          # (case ue_shader (le_unload env) of
               None \<Rightarrow> []
             | Some s \<Rightarrow>
                 if shader_instance_id st \<noteq> INVALID_ID
                 then [Shader_Release_Instance s (shader_instance_id st)] else [])
          @ [Texture_Map_Release, Cubemap_Destroy]"
proof -
  have "state_ok st" using reachable_ok [of cs] assms(1) by (simp add: ptr_ok_def)
  then have sid: "shader_id st \<noteq> INVALID_ID" using assms(2) by (auto simp add: state_ok_def)
  have "snd (unload_state (le_unload env) st)
        = Shader_Get_By_Id (shader_id st)
          # (case ue_shader (le_unload env) of
               None \<Rightarrow> []
             | Some s \<Rightarrow>
                 if shader_instance_id st \<noteq> INVALID_ID
                 then [Shader_Release_Instance s (shader_instance_id st)] else [])
          @ [Texture_Map_Release, Cubemap_Destroy]"
    using unload_state_events [OF assms(2), of "le_unload env"] by (simp split: option.splits)
  then show ?thesis
    using load_after_unload_state [OF assms(2) sid, of env name]
    by (simp add: unload_Some skybox_system_is_loaded_def unload_state_loaded)
qed

theorem load_unloads_previous_first_witness:
  "run example_calls None = Some example_loaded \<and> is_loaded example_loaded
   \<and> \<not> skybox_system_is_loaded (fst (skybox_system_unload (le_unload example_load_env) (Some example_loaded)))
   \<and> snd (skybox_system_unload (le_unload example_load_env) (Some example_loaded))
       = [Shader_Get_By_Id 1, Shader_Release_Instance (Shader 0) 0, Texture_Map_Release, Cubemap_Destroy]
   \<and> take 4 (snd (snd (skybox_system_load example_load_env (Own ''night'') (Some example_loaded))))
       = [Shader_Get_By_Id 1, Shader_Release_Instance (Shader 0) 0, Texture_Map_Release, Cubemap_Destroy]"
proof -
  have l: "is_loaded example_loaded" by (simp add: example_loaded_ok)
  note t = load_unloads_previous_first [OF run_example_calls l, of example_load_env "Own ''night''"]
  from t have u: "snd (skybox_system_unload (le_unload example_load_env) (Some example_loaded))
       = [Shader_Get_By_Id 1, Shader_Release_Instance (Shader 0) 0, Texture_Map_Release, Cubemap_Destroy]"
    by (simp add: example_load_env_def example_loaded_ok valid_ids)
  from t have "snd (snd (skybox_system_load example_load_env (Own ''night'') (Some example_loaded)))
       = snd (skybox_system_unload (le_unload example_load_env) (Some example_loaded))
          @ snd (snd (skybox_system_load example_load_env (Own ''night'')
              (fst (skybox_system_unload (le_unload example_load_env) (Some example_loaded)))))"
    by (simp add: prod_eq_iff)
  then have "take 4 (snd (snd (skybox_system_load example_load_env (Own ''night'') (Some example_loaded))))
       = [Shader_Get_By_Id 1, Shader_Release_Instance (Shader 0) 0, Texture_Map_Release, Cubemap_Destroy]"
    by (simp add: u)
  with t u l run_example_calls show ?thesis by blast
qed

subsection \<open>Failure after the cubemap is created\<close>

lemma after_create_skip:
  assumes "\<And>e. e \<in> set pre \<Longrightarrow> \<not> is_cubemap_create e"
  shows "after_create (pre @ Cubemap_Create fp w h c # rest) = rest"
  using assms by (simp add: after_create_def)

text \<open>
  C4.  When \<open>skybox_system_load\<close> has created the cubemap, it returns true only if the
  texture-map acquisition, the shader lookup and the shader-instance acquisition all
  succeed.  Otherwise its last call destroys the cubemap, and the renderer calls after
  the creation are: the failed map acquisition and the destruction of the cubemap; or
  the map acquisition, the failed instance acquisition (none if the lookup failed), the
  release of the map resources and the destruction of the cubemap.
\<close>

theorem failure_after_create_releases:
  assumes "skybox_system_load env name sp = (r, sp', ev)" and "list_ex is_cubemap_create ev"
  shows "r = (le_map_acquire env \<and> le_shader env \<noteq> None \<and> le_instance_acquire env)
    \<and> (\<not> r \<longrightarrow>
         last ev = Cubemap_Destroy
         \<and> filter is_gpu_call (after_create ev)
             = (if \<not> le_map_acquire env then [Texture_Map_Acquire False, Cubemap_Destroy]
                else (case le_shader env of
                        None \<Rightarrow> [Texture_Map_Acquire True, Texture_Map_Release, Cubemap_Destroy]
                      | Some s \<Rightarrow>
                          [Texture_Map_Acquire True, Shader_Acquire_Instance s False,
                           Texture_Map_Release, Cubemap_Destroy])))"
proof -
  from assms obtain st where sp: "sp = Some st" and sid: "shader_id st \<noteq> INVALID_ID"
    by (cases sp) (auto simp add: skybox_system_load_def split: if_splits)
  define u where "u = (if is_loaded st then unload_state (le_unload env) st else (st, []))"
  have u_nc: "\<not> is_cubemap_create e" if "e \<in> set (snd u)" for e
    using that unload_state_no_create [of e "le_unload env" st] by (auto simp add: u_def split: if_splits)
  have u_id: "shader_id (fst u) = shader_id st"
    by (simp add: u_def unload_state_shader_id)
  obtain ok fp w h c ev2 where
    f: "load_cubemap_faces (le_resource env) (name_text name (fst u)) = (ok, (fp, w, h, c), ev2)"
    by (metis prod_cases3 prod_cases4)
  have f_nc: "\<not> is_cubemap_create e" if "e \<in> set ev2" for e
    using that faces_no_gpu [of "le_resource env" "name_text name (fst u)"] f
      no_gpu_no_create [of ev2 e] by simp
  obtain fp' ev3 where fr: "free_face_pixels fp w h c = (fp', ev3)" by force
  have ev3: "filter is_gpu_call ev3 = []" using free_no_gpu [of fp w h c] fr by simp
  have pre_nc: "\<not> is_cubemap_create e" if "e \<in> set (snd u @ ev2)" for e
    using that u_nc f_nc by auto
  have ok: ok
  proof (rule ccontr)
    assume "\<not> ok"
    then have "ev = snd u @ ev2"
      using assms(1) sp sid f by (simp add: skybox_system_load_def u_def case_prod_beta)
    then show False using assms(2) pre_nc by (auto simp add: list_ex_iff)
  qed
  let ?tl = "if \<not> le_map_acquire env then [Texture_Map_Acquire False, Cubemap_Destroy]
     else (case le_shader env of
             None \<Rightarrow> [Texture_Map_Acquire True, Shader_Get_By_Id (shader_id st),
                       Texture_Map_Release, Cubemap_Destroy]
           | Some s \<Rightarrow>
               if \<not> le_instance_acquire env
               then [Texture_Map_Acquire True, Shader_Get_By_Id (shader_id st),
                     Shader_Acquire_Instance s False, Texture_Map_Release, Cubemap_Destroy]
               else [Texture_Map_Acquire True, Shader_Get_By_Id (shader_id st),
                     Shader_Acquire_Instance s True])"
  have e: "ev = (snd u @ ev2) @ Cubemap_Create fp w h c # ev3 @ ?tl"
    and rr: "r = (le_map_acquire env \<and> le_shader env \<noteq> None \<and> le_instance_acquire env)"
    using assms(1) sp sid f fr ok u_id
    by (auto simp add: skybox_system_load_def u_def Let_def case_prod_beta split: if_splits option.splits)
  have ac: "after_create ev = ev3 @ ?tl"
    unfolding e using pre_nc by (rule after_create_skip)
  have "filter is_gpu_call (after_create ev)
             = (if \<not> le_map_acquire env then [Texture_Map_Acquire False, Cubemap_Destroy]
                else (case le_shader env of
                        None \<Rightarrow> [Texture_Map_Acquire True, Texture_Map_Release, Cubemap_Destroy]
                      | Some s \<Rightarrow>
                          [Texture_Map_Acquire True, Shader_Acquire_Instance s False,
                           Texture_Map_Release, Cubemap_Destroy]))"
    if "\<not> r"
    using that rr by (auto simp add: ac ev3 split: option.splits)
  moreover have "last ev = Cubemap_Destroy" if "\<not> r"
    using that rr by (auto simp add: e split: option.splits)
  ultimately show ?thesis using rr by blast
qed

theorem failure_after_create_releases_witness:
  "fst (skybox_system_load (example_load_env\<lparr>le_instance_acquire := False\<rparr>) (Own ''sky'') example_initialized) = False
   \<and> list_ex is_cubemap_create
        (snd (snd (skybox_system_load (example_load_env\<lparr>le_instance_acquire := False\<rparr>) (Own ''sky'') example_initialized)))
   \<and> last (snd (snd (skybox_system_load (example_load_env\<lparr>le_instance_acquire := False\<rparr>) (Own ''sky'') example_initialized)))
       = Cubemap_Destroy
   \<and> filter is_gpu_call (after_create
        (snd (snd (skybox_system_load (example_load_env\<lparr>le_instance_acquire := False\<rparr>) (Own ''sky'') example_initialized))))
       = [Texture_Map_Acquire True, Shader_Acquire_Instance (Shader 0) False,
          Texture_Map_Release, Cubemap_Destroy]"
proof -
  let ?env = "example_load_env\<lparr>le_instance_acquire := False\<rparr>"
  let ?l = "skybox_system_load ?env (Own ''sky'') example_initialized"
  have f: "fst ?l = False" by (simp add: example_initialized_def eval_simps)
  have c: "list_ex is_cubemap_create (snd (snd ?l))" by (simp add: example_initialized_def eval_simps)
  have "?l = (fst ?l, fst (snd ?l), snd (snd ?l))" by simp
  note t = failure_after_create_releases [OF this c]
  have s: "le_shader ?env = Some (Shader 0)" "le_map_acquire ?env"
    by (simp_all add: example_load_env_def)
  from t f have "last (snd (snd ?l)) = Cubemap_Destroy" by simp
  moreover from t f have "filter is_gpu_call (after_create (snd (snd ?l)))
       = [Texture_Map_Acquire True, Shader_Acquire_Instance (Shader 0) False,
          Texture_Map_Release, Cubemap_Destroy]"
    by (simp add: s)
  ultimately show ?thesis using f c by blast
qed


subsection \<open>What the face loop checks, and the pixel buffers\<close>

text \<open>
  The comparison the loop does make: when it succeeds, every face was loaded, face 0
  gave the width, the height and the channel count, and every face has that width and
  height.
\<close>

lemma faces_from_success:
  assumes "load_cubemap_faces_from i rl name fp w h c = (True, (fp', w', h', c'), ev)"
  shows "(0 < i \<longrightarrow> w' = w \<and> h' = h \<and> c' = c)
    \<and> (\<forall>j. i \<le> j \<and> j < 6 \<longrightarrow>
          (\<exists>img. rl (resource_name name j) = Some img \<and> img_width img = w' \<and> img_height img = h'
             \<and> (j = 0 \<longrightarrow> img_channel_count img = c')))"
  using assms
proof (induction i rl name fp w h c arbitrary: ev rule: load_cubemap_faces_from.induct)
  case (1 i rl name fp w h c)
  show ?case
  proof (cases "i < 6")
    case False
    then show ?thesis
      using "1.prems" by (subst (asm) load_cubemap_faces_from.simps) auto
  next
    case True
    from "1.prems" True obtain img where img: "rl (resource_name name i) = Some img"
      and ok: "\<not> (i \<noteq> 0 \<and> (img_width img \<noteq> w \<or> img_height img \<noteq> h))"
      by (subst (asm) load_cubemap_faces_from.simps)
        (auto simp add: case_prod_beta split: option.splits if_splits)
    let ?fp = "fp[i := Some (img_width img * img_height img * ucast (img_channel_count img))]"
    let ?w = "if i = 0 then img_width img else w"
    let ?h = "if i = 0 then img_height img else h"
    let ?c = "if i = 0 then img_channel_count img else c"
    have rec: "load_cubemap_faces_from (i + 1) rl name ?fp ?w ?h ?c = (True, (fp', w', h', c'), snd (snd (load_cubemap_faces_from (i + 1) rl name ?fp ?w ?h ?c)))"
      using "1.prems" True img ok
      by (subst (asm) load_cubemap_faces_from.simps) (auto simp add: case_prod_beta prod_eq_iff)
    note ih = "1.IH" [OF True img ok rec]
    from ih have keep: "w' = ?w" "h' = ?h" "c' = ?c" by simp_all
    have here: "img_width img = w' \<and> img_height img = h' \<and> (i = 0 \<longrightarrow> img_channel_count img = c')"
      using keep ok by auto
    have "\<exists>im. rl (resource_name name j) = Some im \<and> img_width im = w' \<and> img_height im = h'
             \<and> (j = 0 \<longrightarrow> img_channel_count im = c')"
      if "i \<le> j" "j < 6" for j
    proof (cases "j = i")
      case True
      then show ?thesis using img here by simp
    next
      case False
      then have "i + 1 \<le> j" using that(1) by simp
      then show ?thesis using ih that(2) by auto
    qed
    then show ?thesis using keep by auto
  qed
qed

lemma faces_success:
  assumes "load_cubemap_faces rl name = (True, (fp, w, h, c), ev)" and "j < 6"
  shows "\<exists>img. rl (resource_name name j) = Some img \<and> img_width img = w \<and> img_height img = h
           \<and> (j = 0 \<longrightarrow> img_channel_count img = c)"
  using faces_from_success [OF assms(1) [unfolded load_cubemap_faces_def]] assms(2) by simp

lemma live_buffers_append: "live_buffers (a @ b) L = live_buffers b (live_buffers a L)"
  by (induction a L rule: live_buffers.induct) simp_all

lemma free_from_buffers:
  assumes "length fp = 6"
  shows "length (fst (free_face_pixels_from i fp sz)) = 6
    \<and> held (fst (free_face_pixels_from i fp sz)) = held fp - {j. i \<le> j}
    \<and> live_buffers (snd (free_face_pixels_from i fp sz)) L = L - (held fp \<inter> {j. i \<le> j})"
  using assms
proof (induction i fp sz arbitrary: L rule: free_face_pixels_from.induct)
  case (1 i fp sz)
  show ?case
  proof (cases "i < 6")
    case False
    then show ?thesis
      using "1.prems" by (subst (1 2 3) free_face_pixels_from.simps) (auto simp add: held_def)
  next
    case True
    show ?thesis
    proof (cases "fp ! i")
      case None
      have "(i \<le> j) = (i + 1 \<le> j)" if "j \<in> held fp" for j
      proof -
        have "j \<noteq> i" using that None by (auto simp add: held_def)
        then show ?thesis by auto
      qed
      then have h: "held fp - {j. i \<le> j} = held fp - {j. i + 1 \<le> j}"
        "held fp \<inter> {j. i \<le> j} = held fp \<inter> {j. i + 1 \<le> j}"
        by auto
      show ?thesis
        using "1.IH"(1) [OF True None "1.prems", of L] True None h
        by (subst (1 2 3) free_face_pixels_from.simps) simp
    next
      case (Some b)
      have l: "length (fp[i := None]) = 6" using "1.prems" by simp
      have u: "held (fp[i := None]) = held fp - {i}"
        using True "1.prems" by (auto simp add: held_def nth_list_update)
      have m: "i \<in> held fp" using Some True by (simp add: held_def)
      have s: "(i \<le> j) = (j = i \<or> i + 1 \<le> j)" for j by auto
      have h: "held (fp[i := None]) - {j. i + 1 \<le> j} = held fp - {j. i \<le> j}"
        "(L - {i}) - (held (fp[i := None]) \<inter> {j. i + 1 \<le> j}) = L - (held fp \<inter> {j. i \<le> j})"
        unfolding u using m by (auto simp add: s)
      show ?thesis
        using "1.IH"(2) [OF True Some l, of "L - {i}"] True Some h
        by (subst (1 2 3) free_face_pixels_from.simps) (simp add: case_prod_beta)
    qed
  qed
qed

lemma free_buffers:
  assumes "length fp = 6"
  shows "held (fst (free_face_pixels fp w h c)) = {}"
    and "live_buffers (snd (free_face_pixels fp w h c)) (held fp) = {}"
  using free_from_buffers [OF assms, of 0] by (simp_all add: free_face_pixels_def)


lemma faces_from_buffers:
  assumes "length fp = 6" and "i = 0 \<longrightarrow> held fp = {}"
  shows "length (fst (fst (snd (load_cubemap_faces_from i rl name fp w h c)))) = 6
    \<and> live_buffers (snd (snd (load_cubemap_faces_from i rl name fp w h c))) (held fp)
        = held (fst (fst (snd (load_cubemap_faces_from i rl name fp w h c))))
    \<and> (\<not> fst (load_cubemap_faces_from i rl name fp w h c)
        \<longrightarrow> held (fst (fst (snd (load_cubemap_faces_from i rl name fp w h c)))) = {})"
  using assms
proof (induction i rl name fp w h c rule: load_cubemap_faces_from.induct)
  case (1 i rl name fp w h c)
  note len = "1.prems"(1)
  have fr: "length (fst (free_face_pixels fp w h c)) = 6"
    using free_from_buffers [OF len, of 0] by (simp add: free_face_pixels_def)
  note fb = free_buffers [OF len, of w h c]
  show ?case
  proof (cases "i < 6")
    case False
    then have "load_cubemap_faces_from i rl name fp w h c = (True, (fp, w, h, c), [])"
      by (subst load_cubemap_faces_from.simps) simp
    then show ?thesis using len by simp
  next
    case True
    show ?thesis
    proof (cases "rl (resource_name name i)")
      case None
      show ?thesis
      proof (cases "0 < i")
        case True
        then have "load_cubemap_faces_from i rl name fp w h c
          = (False, (fst (free_face_pixels fp w h c), w, h, c),
             Resource_Load (resource_name name i) False # snd (free_face_pixels fp w h c))"
          using \<open>i < 6\<close> None by (subst load_cubemap_faces_from.simps) (simp add: case_prod_beta)
        then show ?thesis using fr fb by simp
      next
        case False
        then have "load_cubemap_faces_from i rl name fp w h c
          = (False, (fp, w, h, c), [Resource_Load (resource_name name i) False])"
          using \<open>i < 6\<close> None by (subst load_cubemap_faces_from.simps) simp
        then show ?thesis using len False "1.prems"(2) by simp
      qed
    next
      case (Some img)
      show ?thesis
      proof (cases "i \<noteq> 0 \<and> (img_width img \<noteq> w \<or> img_height img \<noteq> h)")
        case True
        then have "load_cubemap_faces_from i rl name fp w h c
          = (False, (fst (free_face_pixels fp w h c), w, h, c),
             Resource_Load (resource_name name i) True # Resource_Unload (resource_name name i)
               # snd (free_face_pixels fp w h c))"
          using \<open>i < 6\<close> Some by (subst load_cubemap_faces_from.simps) (simp add: case_prod_beta)
        then show ?thesis using fr fb by simp
      next
        case False
        let ?sz = "img_width img * img_height img * ucast (img_channel_count img)"
        let ?fp = "fp[i := Some ?sz]"
        let ?r = "load_cubemap_faces_from (i + 1) rl name ?fp
           (if i = 0 then img_width img else w) (if i = 0 then img_height img else h)
           (if i = 0 then img_channel_count img else c)"
        have l: "length ?fp = 6" using len by simp
        have hd: "held ?fp = insert i (held fp)"
          using \<open>i < 6\<close> len by (auto simp add: held_def nth_list_update)
        have z: "i + 1 = 0 \<longrightarrow> held ?fp = {}" by simp
        note ih = "1.IH" [OF \<open>i < 6\<close> Some False l z]
        have "load_cubemap_faces_from i rl name fp w h c
          = (fst ?r, fst (snd ?r),
             Resource_Load (resource_name name i) True # KAllocate i ?sz # KCopy_Memory i ?sz
               # Resource_Unload (resource_name name i) # snd (snd ?r))"
          using \<open>i < 6\<close> Some False by (subst load_cubemap_faces_from.simps) (simp add: case_prod_beta)
        then show ?thesis using ih hd by simp
      qed
    qed
  qed
qed

lemma faces_buffers:
  "length (fst (fst (snd (load_cubemap_faces rl name)))) = 6"
  "live_buffers (snd (snd (load_cubemap_faces rl name))) {} = held (fst (fst (snd (load_cubemap_faces rl name))))"
  "\<not> fst (load_cubemap_faces rl name) \<Longrightarrow> live_buffers (snd (snd (load_cubemap_faces rl name))) {} = {}"
proof -
  have l: "length (replicate 6 (None :: u32 option)) = 6" by simp
  have h: "held (replicate 6 None) = {}" by (auto simp add: held_def)
  then have "(0::nat) = 0 \<longrightarrow> held (replicate 6 None) = {}" by simp
  note t = faces_from_buffers [OF l this, of rl name 0 0 0, unfolded h, folded load_cubemap_faces_def]
  from t show "length (fst (fst (snd (load_cubemap_faces rl name)))) = 6" by simp
  from t show "live_buffers (snd (snd (load_cubemap_faces rl name))) {}
     = held (fst (fst (snd (load_cubemap_faces rl name))))" by simp
  from t show "live_buffers (snd (snd (load_cubemap_faces rl name))) {} = {}"
    if "\<not> fst (load_cubemap_faces rl name)" using that by simp
qed

lemma unload_state_buffers: "live_buffers (snd (unload_state env st)) L = L"
  by (simp add: unload_state_def split: option.splits)

text \<open>
  Every \<open>skybox_system_load\<close>, failed or not, has freed every pixel buffer it allocated
  when it returns.
\<close>

lemma load_frees_buffers: "live_buffers (snd (snd (skybox_system_load env name sp))) {} = {}"
proof (cases sp)
  case None
  then show ?thesis by (simp add: skybox_system_load_def)
next
  case (Some st)
  define u where "u = (if is_loaded st then unload_state (le_unload env) st else (st, []))"
  have ub: "live_buffers (snd u) {} = {}" by (simp add: u_def unload_state_buffers)
  obtain ok fp w h c ev2 where
    f: "load_cubemap_faces (le_resource env) (name_text name (fst u)) = (ok, (fp, w, h, c), ev2)"
    by (metis prod_cases3 prod_cases4)
  have len: "length fp = 6" and lb: "live_buffers ev2 {} = held fp"
    using faces_buffers(1,2) [of "le_resource env" "name_text name (fst u)"] f by simp_all
  have fail: "live_buffers ev2 {} = {}" if "\<not> ok"
    using faces_buffers(3) [of "le_resource env" "name_text name (fst u)"] f that by simp
  obtain fp' ev3 where fr: "free_face_pixels fp w h c = (fp', ev3)" by force
  have fb: "live_buffers ev3 (held fp) = {}" using free_buffers(2) [OF len, of w h c] fr by simp
  show ?thesis
    using Some f fr ub lb fail fb
    by (auto simp add: skybox_system_load_def u_def [symmetric] Let_def case_prod_beta
        live_buffers_append split: option.splits)
qed

lemma load_fails_with_faces:
  assumes "\<not> fst (load_cubemap_faces (le_resource env) s)"
  shows "fst (skybox_system_load env (Own s) sp) = False"
    and "filter is_cubemap_create (snd (snd (skybox_system_load env (Own s) sp))) = []"
proof -
  obtain ok out ev2 where f: "load_cubemap_faces (le_resource env) s = (ok, out, ev2)"
    by (metis prod_cases3)
  then have nok: "\<not> ok" using assms by simp
  have f_nc: "\<not> is_cubemap_create e" if "e \<in> set ev2" for e
    using that faces_no_gpu [of "le_resource env" s] f no_gpu_no_create [of ev2 e] by simp
  show "fst (skybox_system_load env (Own s) sp) = False"
    using f nok
    by (auto simp add: skybox_system_load_def name_text_Own case_prod_beta split: option.splits)
  show "filter is_cubemap_create (snd (snd (skybox_system_load env (Own s) sp))) = []"
    using f nok f_nc unload_state_no_create
    by (auto simp add: skybox_system_load_def name_text_Own case_prod_beta filter_empty_conv
        split: option.splits)
qed

text \<open>
  When a face from 1 to 5 differs from face 0 in width or in height, the load fails,
  no cubemap is created, and every pixel buffer allocated by the call has been freed.
\<close>

lemma dimension_mismatch_fails:
  assumes "le_resource env (resource_name s 0) = Some img0"
    and "0 < i" and "i < 6" and "le_resource env (resource_name s i) = Some img"
    and "img_width img \<noteq> img_width img0 \<or> img_height img \<noteq> img_height img0"
  shows "fst (skybox_system_load env (Own s) sp) = False"
    and "filter is_cubemap_create (snd (snd (skybox_system_load env (Own s) sp))) = []"
    and "live_buffers (snd (snd (skybox_system_load env (Own s) sp))) {} = {}"
proof -
  have "\<not> fst (load_cubemap_faces (le_resource env) s)"
  proof
    assume "fst (load_cubemap_faces (le_resource env) s)"
    then obtain fp w h c ev where
      f: "load_cubemap_faces (le_resource env) s = (True, (fp, w, h, c), ev)"
      by (metis (full_types) prod.collapse)
    from faces_success [OF f, of 0] assms(1) have "img_width img0 = w" "img_height img0 = h"
      by simp_all
    moreover from faces_success [OF f assms(3)] assms(4) have "img_width img = w" "img_height img = h"
      by simp_all
    ultimately show False using assms(5) by simp
  qed
  from load_fails_with_faces [OF this]
  show "fst (skybox_system_load env (Own s) sp) = False"
    and "filter is_cubemap_create (snd (snd (skybox_system_load env (Own s) sp))) = []"
    by simp_all
  show "live_buffers (snd (snd (skybox_system_load env (Own s) sp))) {} = {}"
    by (rule load_frees_buffers)
qed


subsection \<open>Faces that differ in channel count\<close>

text \<open>
  C1 fails on the code.  The loop compares the width and the height of faces 1 to 5
  with those of face 0 (line 330) and not the channel count.  With six 2 by 2 faces of
  which \<open>left\<close> has 3 channels and the others 4, \<open>skybox_system_load\<close> succeeds and
  creates the cubemap as a texture of 4 channels over a 12-byte buffer for face 1, and
  that buffer, allocated with 12 bytes, is freed as one of 16.
\<close>

theorem channel_mismatch_accepted:
  "fst (skybox_system_load mixed_channels_env (Own ''sky'') example_initialized) = True
   \<and> filter is_cubemap_create (snd (snd (skybox_system_load mixed_channels_env (Own ''sky'') example_initialized)))
       = [Cubemap_Create [Some 16, Some 12, Some 16, Some 16, Some 16, Some 16] 2 2 4]
   \<and> filter (about_buffer 1) (snd (snd (skybox_system_load mixed_channels_env (Own ''sky'') example_initialized)))
       = [KAllocate 1 12, KCopy_Memory 1 12, KFree 1 16]"
  by (simp add: example_initialized_def mixed_channels_env_def eval_simps)


end
